theory Spec2Isabelle
  imports Complex_Main "HOL-Library.AList"
begin

section \<open>Numbers\<close>

text \<open>
  The program is JavaScript: every number is an IEEE double. The embedding takes the
  finite doubles as \<^typ>\<open>real\<close> with exact arithmetic, so rounding is not part of it.
  A division by zero gives \<open>NaN\<close> or an infinity in the source. In the ledger the only
  quotient that can meet a zero divisor with the result kept is the average cost of a
  holding, so an average cost and a realized P&L are of type \<open>num\<close>: a finite value or
  \<open>NonFinite\<close>, which stands for \<open>NaN\<close>, \<open>Infinity\<close> and \<open>-Infinity\<close> alike. Wherever
  the ledger uses an average cost (a product with a finite quantity, a sum with or a
  difference from a finite amount, a quotient by a finite total) a value that is not
  finite stays not finite, so the one constructor is enough.
\<close>

datatype num = Fin real | NonFinite

definition jsdiv :: "real \<Rightarrow> real \<Rightarrow> num" where
  "jsdiv a b = (if b = 0 then NonFinite else Fin (a / b))"

fun num_add :: "num \<Rightarrow> num \<Rightarrow> num" where
  "num_add (Fin a) (Fin b) = Fin (a + b)"
| "num_add _ _ = NonFinite"

fun num_scale :: "real \<Rightarrow> num \<Rightarrow> num" where
  "num_scale q (Fin a) = Fin (q * a)"
| "num_scale q NonFinite = NonFinite"

section \<open>Portfolio ledger (portfolio.js)\<close>

record holding =
  qty :: real
  avgCost :: num

record trade =
  tid :: nat
  tsymbol :: string
  tside :: string
  tqty :: real
  tprice :: real
  ttotal :: real
  tpnl :: "num option"
  tday :: nat
  ttick :: nat
  ttime :: nat

text \<open>
  \<open>holdings\<close> is a JavaScript object used as a dictionary. An association list with
  \<^const>\<open>AList.update\<close> (replace in place, or append a new key) and \<^const>\<open>AList.delete\<close>
  keeps the keys in insertion order, which is the order the \<open>for ... in\<close> loops visit.
  The keys are ticker symbols; the names an object inherits from \<open>Object.prototype\<close>
  are not among them.
\<close>

record portfolio =
  name :: string
  startingCash :: real
  cash :: real
  holdings :: "(string \<times> holding) list"
  trades :: "trade list"
  tradeId :: nat
  peakValue :: real
  maxDrawdown :: real
  dailyReturns :: "real list"
  prevValue :: real

definition Portfolio :: "string \<Rightarrow> real \<Rightarrow> portfolio" where
  "Portfolio nm c =
     \<lparr>name = nm, startingCash = c, cash = c, holdings = [], trades = [], tradeId = 0,
      peakValue = c, maxDrawdown = 0, dailyReturns = [], prevValue = c\<rparr>"

definition getHolding :: "portfolio \<Rightarrow> string \<Rightarrow> holding option" where
  "getHolding p symbol = map_of (holdings p) symbol"

text \<open>
  The part of \<open>buy\<close> after the clamp (lines 34 to 51): debit the cash, blend the average
  cost, append the BUY record. \<open>now\<close> is the reading of \<open>Date.now()\<close>.
\<close>

definition buy_fill ::
  "portfolio \<Rightarrow> string \<Rightarrow> real \<Rightarrow> real \<Rightarrow> nat \<Rightarrow> nat \<Rightarrow> nat \<Rightarrow> trade option \<times> portfolio" where
  "buy_fill p symbol q price day tick now =
     (let totalCost = q * price;
          h = (case map_of (holdings p) symbol of
                 None \<Rightarrow> \<lparr>qty = 0, avgCost = Fin 0\<rparr>
               | Some h0 \<Rightarrow> h0);
          newTotal = qty h + q;
          h' = \<lparr>qty = newTotal,
                avgCost = (case avgCost h of
                             Fin a \<Rightarrow> jsdiv (a * qty h + totalCost) newTotal
                           | NonFinite \<Rightarrow> NonFinite)\<rparr>;
          t = \<lparr>tid = Suc (tradeId p), tsymbol = symbol, tside = ''BUY'', tqty = q,
               tprice = price, ttotal = totalCost, tpnl = None, tday = day, ttick = tick,
               ttime = now\<rparr>
      in (Some t,
          p\<lparr>cash := cash p - totalCost,
            holdings := AList.update symbol h' (holdings p),
            trades := trades p @ [t],
            tradeId := Suc (tradeId p)\<rparr>))"

text \<open>
  \<open>buy\<close>, lines 28 to 33. With \<open>price = 0\<close> the clamp is reached only when the cash is
  negative; the source's quotient is then \<open>-Infinity\<close>, its floor is \<open>\<le> 0\<close> and the call
  returns \<open>null\<close>, which is also what the floor of HOL's \<open>cash / 0 = 0\<close> gives.
\<close>

definition buy ::
  "portfolio \<Rightarrow> string \<Rightarrow> real \<Rightarrow> real \<Rightarrow> nat \<Rightarrow> nat \<Rightarrow> nat \<Rightarrow> trade option \<times> portfolio" where
  "buy p symbol q price day tick now =
     (let cost = q * price in
      if cost > cash p then
        (let q' = real_of_int \<lfloor>cash p / price\<rfloor> in
         if q' \<le> 0 then (None, p) else buy_fill p symbol q' price day tick now)
      else buy_fill p symbol q price day tick now)"

definition sell ::
  "portfolio \<Rightarrow> string \<Rightarrow> real \<Rightarrow> real \<Rightarrow> nat \<Rightarrow> nat \<Rightarrow> nat \<Rightarrow> trade option \<times> portfolio" where
  "sell p symbol q price day tick now =
     (case map_of (holdings p) symbol of
        None \<Rightarrow> (None, p)
      | Some h \<Rightarrow>
          if qty h \<le> 0 then (None, p)
          else
            (let q' = min q (qty h) in
             if q' \<le> 0 then (None, p)
             else
               (let revenue = q' * price;
                    pnl = (case avgCost h of
                             Fin a \<Rightarrow> Fin (revenue - q' * a)
                           | NonFinite \<Rightarrow> NonFinite);
                    left = qty h - q';
                    t = \<lparr>tid = Suc (tradeId p), tsymbol = symbol, tside = ''SELL'', tqty = q',
                         tprice = price, ttotal = revenue, tpnl = Some pnl, tday = day,
                         ttick = tick, ttime = now\<rparr>
                in (Some t,
                    p\<lparr>cash := cash p + revenue,
                      holdings := (if left \<le> 0 then AList.delete symbol (holdings p)
                                   else AList.update symbol (h\<lparr>qty := left\<rparr>) (holdings p)),
                      trades := trades p @ [t],
                      tradeId := Suc (tradeId p)\<rparr>))))"

definition totalValue :: "portfolio \<Rightarrow> (string \<Rightarrow> real option) \<Rightarrow> real" where
  "totalValue p marketPrices =
     fold (\<lambda>(sym, h) val.
             val + qty h * (case marketPrices sym of None \<Rightarrow> 0 | Some price \<Rightarrow> price))
          (holdings p) (cash p)"

definition realizedPnL :: "portfolio \<Rightarrow> num" where
  "realizedPnL p =
     fold (\<lambda>t s. case tpnl t of None \<Rightarrow> s | Some x \<Rightarrow> num_add s x) (trades p) (Fin 0)"

definition updateMetrics :: "portfolio \<Rightarrow> (string \<Rightarrow> real option) \<Rightarrow> portfolio" where
  "updateMetrics p marketPrices =
     (let val = totalValue p marketPrices;
          peak = (if val > peakValue p then val else peakValue p);
          dd = (if peak > 0 then ((peak - val) / peak) * 100 else 0);
          mdd = (if dd > maxDrawdown p then dd else maxDrawdown p);
          rets = (if prevValue p > 0
                  then dailyReturns p @ [(val - prevValue p) / prevValue p]
                  else dailyReturns p)
      in p\<lparr>peakValue := peak, maxDrawdown := mdd, dailyReturns := rets, prevValue := val\<rparr>)"

text \<open>A run of the ledger: the calls made on one portfolio, in order.\<close>

datatype ledger_op =
    Buy string real real nat nat nat
  | Sell string real real nat nat nat

fun apply_op :: "portfolio \<Rightarrow> ledger_op \<Rightarrow> portfolio" where
  "apply_op p (Buy symbol q price day tick now) = snd (buy p symbol q price day tick now)"
| "apply_op p (Sell symbol q price day tick now) = snd (sell p symbol q price day tick now)"

definition run :: "portfolio \<Rightarrow> ledger_op list \<Rightarrow> portfolio" where
  "run p ops = fold (\<lambda>op p. apply_op p op) ops p"

text \<open>
  The book value of the accounting identity: the cash plus, over the holdings, the
  quantity times the average cost. It is not a function of the source; it is the left
  side of the identity, written as the ledger's own sums are.
\<close>

definition bookValue :: "portfolio \<Rightarrow> num" where
  "bookValue p =
     fold (\<lambda>(sym, h) s. num_add s (num_scale (qty h) (avgCost h))) (holdings p) (Fin (cash p))"

text \<open>
  The runs the ledger is written for: every call asks for a positive quantity at a
  positive price. \<open>well_formed\<close> and \<open>balanced\<close> are the invariants such runs keep, and
  \<open>basis\<close> is the cost basis of one holding whose average cost is finite.
\<close>

fun positive_op :: "ledger_op \<Rightarrow> bool" where
  "positive_op (Buy symbol q price day tick now) = (0 < q \<and> 0 < price)"
| "positive_op (Sell symbol q price day tick now) = (0 < q \<and> 0 < price)"

definition basis :: "string \<times> holding \<Rightarrow> real" where
  "basis e = qty (snd e) * (case avgCost (snd e) of Fin a \<Rightarrow> a | NonFinite \<Rightarrow> 0)"

definition sound_holding :: "string \<times> holding \<Rightarrow> bool" where
  "sound_holding e = (0 < qty (snd e) \<and> avgCost (snd e) \<noteq> NonFinite)"

definition well_formed :: "portfolio \<Rightarrow> bool" where
  "well_formed p =
     (0 \<le> cash p \<and> distinct (map fst (holdings p)) \<and> list_all sound_holding (holdings p))"

definition balanced :: "portfolio \<Rightarrow> bool" where
  "balanced p =
     (case realizedPnL p of
        NonFinite \<Rightarrow> False
      | Fin r \<Rightarrow> cash p + sum_list (map basis (holdings p)) = startingCash p + r)"

section \<open>Indicators (indicators.js)\<close>

text \<open>
  A series is a list of reals; \<open>null\<close> in a result is \<open>None\<close>. The period is an integer,
  as every caller passes it. With a period \<open>\<le> 0\<close> some of the source's values are not
  finite (a quotient by the period \<open>0\<close>, \<open>100 / (1 + rs)\<close> at \<open>rs = -1\<close>, the square root
  of a negative variance): they are numbers, not \<open>null\<close>. The model has \<open>Some\<close> of a real
  there, and no statement below reads such a value.

  The inner loop \<open>for (j = i - period + 1; j <= i; j++)\<close> runs only where
  \<open>i \<ge> period - 1\<close>, so its first index is never negative.
\<close>

definition window :: "nat \<Rightarrow> int \<Rightarrow> nat list" where
  "window i period = [nat (int i - period + 1) ..< Suc i]"

definition window_sum :: "real list \<Rightarrow> nat \<Rightarrow> int \<Rightarrow> real" where
  "window_sum data i period = fold (\<lambda>j sum. sum + data ! j) (window i period) 0"

definition SMA :: "real list \<Rightarrow> int \<Rightarrow> real option list" where
  "SMA data period =
     map (\<lambda>i. if int i < period - 1 then None
               else Some (window_sum data i period / real_of_int period))
         [0 ..< length data]"

fun EMA_loop :: "real list \<Rightarrow> int \<Rightarrow> nat list \<Rightarrow> real option \<Rightarrow> real option list" where
  "EMA_loop data period [] ema = []"
| "EMA_loop data period (i # rest) ema =
     (if int i < period - 1 then None # EMA_loop data period rest ema
      else
        (let k = 2 / (real_of_int period + 1);
             e = (case ema of
                    None \<Rightarrow> window_sum data i period / real_of_int period
                  | Some prev \<Rightarrow> data ! i * k + prev * (1 - k))
         in Some e # EMA_loop data period rest (Some e)))"

definition EMA :: "real list \<Rightarrow> int \<Rightarrow> real option list" where
  "EMA data period = EMA_loop data period [0 ..< length data] None"

text \<open>
  One iteration of the loop of \<open>RSI\<close> at index \<open>i\<close>, from the running \<open>(gains, losses)\<close>
  to the pushed entry and the new pair.
\<close>

definition RSI_step ::
  "real list \<Rightarrow> int \<Rightarrow> nat \<Rightarrow> real \<times> real \<Rightarrow> real option \<times> real \<times> real" where
  "RSI_step closes period i st =
     (case st of (gains, losses) \<Rightarrow>
      if i = 0 then (None, gains, losses)
      else
        (let change = closes ! i - closes ! (i - 1) in
         if int i \<le> period then
           (let gains1 = (if change > 0 then gains + change else gains);
                losses1 = (if change > 0 then losses else losses - change)
            in if int i < period then (None, gains1, losses1)
               else
                 (let gains2 = gains1 / real_of_int period;
                      losses2 = losses1 / real_of_int period;
                      rs = (if losses2 = 0 then 100 else gains2 / losses2)
                  in (Some (100 - 100 / (1 + rs)), gains2, losses2)))
         else
           (let gains2 = (gains * (real_of_int period - 1) + (if change > 0 then change else 0))
                          / real_of_int period;
                losses2 = (losses * (real_of_int period - 1) + (if change < 0 then - change else 0))
                          / real_of_int period;
                rs = (if losses2 = 0 then 100 else gains2 / losses2)
            in (Some (100 - 100 / (1 + rs)), gains2, losses2))))"

fun RSI_loop :: "real list \<Rightarrow> int \<Rightarrow> nat list \<Rightarrow> real \<times> real \<Rightarrow> real option list" where
  "RSI_loop closes period [] st = []"
| "RSI_loop closes period (i # rest) st =
     fst (RSI_step closes period i st) # RSI_loop closes period rest (snd (RSI_step closes period i st))"

definition RSI :: "real list \<Rightarrow> int \<Rightarrow> real option list" where
  "RSI closes period = RSI_loop closes period [0 ..< length closes] (0, 0)"

text \<open>The pair \<open>(gains, losses)\<close> after the iterations \<open>0, ..., i\<close> of the same loop.\<close>

definition RSI_averages :: "real list \<Rightarrow> int \<Rightarrow> nat \<Rightarrow> real \<times> real" where
  "RSI_averages closes period i =
     fold (\<lambda>j st. snd (RSI_step closes period j st)) [0 ..< Suc i] (0, 0)"

record bands =
  upper :: "real option list"
  middle :: "real option list"
  lower :: "real option list"

definition bands_at ::
  "real list \<Rightarrow> int \<Rightarrow> real \<Rightarrow> real option list \<Rightarrow> nat
     \<Rightarrow> real option \<times> real option \<times> real option" where
  "bands_at closes period mult sma i =
     (case sma ! i of
        None \<Rightarrow> (None, None, None)
      | Some m \<Rightarrow>
          (let variance = fold (\<lambda>j v. v + (closes ! j - m) ^ 2) (window i period) 0;
               std = sqrt (variance / real_of_int period)
           in (Some (m + mult * std), Some m, Some (m - mult * std))))"

definition BollingerBands :: "real list \<Rightarrow> int \<Rightarrow> real \<Rightarrow> bands" where
  "BollingerBands closes period mult =
     (let sma = SMA closes period;
          rows = map (bands_at closes period mult sma) [0 ..< length closes]
      in \<lparr>upper = map fst rows,
          middle = map (\<lambda>r. fst (snd r)) rows,
          lower = map (\<lambda>r. snd (snd r)) rows\<rparr>)"

section \<open>Decision engine (ai-engine.js)\<close>

text \<open>
  A candidate move as \<open>_makeMove\<close> builds it and the scoring loop of \<open>evaluate\<close> leaves
  it: the score is set. The lookahead samples are drawn with \<open>Math.random\<close> and enter
  the score only, so \<open>evaluate\<close> below takes the scored candidates in generation order
  as its argument.
\<close>

record move =
  action :: string
  msymbol :: string
  mqty :: real
  mprice :: real
  strategy :: string
  reason :: string
  edge :: real
  score :: real

text \<open>
  \<open>analysis.chosen\<close> is the best candidate or the literal
  \<open>{action: 'HOLD', symbol: '-', reason: 'No high-conviction trades', score: 0}\<close>.
\<close>

datatype chosen = Best move | Hold string string string real

definition HOLD :: chosen where
  "HOLD = Hold ''HOLD'' ''-'' ''No high-conviction trades'' 0"

record analysis =
  atick :: int
  candidates :: "move list"
  chosen :: chosen
  aconfidence :: real

datatype ai_event = TradeEvent trade string string real | AnalysisEvent analysis

record engine =
  ledger :: portfolio
  tradeFrequency :: int
  lastEvalTick :: int
  confidence :: real
  thinkingLog :: "analysis list"
  currentAnalysis :: "analysis option"
  signals :: "ai_event list"

definition AIEngine :: "portfolio \<Rightarrow> engine" where
  "AIEngine p =
     \<lparr>ledger = p, tradeFrequency = 8, lastEvalTick = 0, confidence = 0, thinkingLog = [],
      currentAnalysis = None, signals = []\<rparr>"

text \<open>
  \<open>Array.prototype.sort\<close> with the comparator \<open>(a, b) => b.score - a.score\<close>: descending by
  score, and stable, so equal scores keep their order.
\<close>

definition sort_by_score :: "move list \<Rightarrow> move list" where
  "sort_by_score ms = sort_key (\<lambda>m. - score m) ms"

definition executeTrade :: "engine \<Rightarrow> move \<Rightarrow> nat \<Rightarrow> nat \<Rightarrow> nat \<Rightarrow> engine" where
  "executeTrade e m day tick now =
     (let (result, p') =
            (if action m = ''BUY'' then buy (ledger e) (msymbol m) (mqty m) (mprice m) day tick now
             else if action m = ''SELL'' then sell (ledger e) (msymbol m) (mqty m) (mprice m) day tick now
             else (None, ledger e))
      in case result of
           None \<Rightarrow> e\<lparr>ledger := p'\<rparr>
         | Some t \<Rightarrow>
             e\<lparr>ledger := p',
               signals := signals e @ [TradeEvent t (strategy m) (reason m) (confidence e)]\<rparr>)"

text \<open>
  One evaluation cycle: \<open>evaluate\<close> from line 220 on, once the gate on the evaluation
  frequency has let the call through; lines 249 to 271 are the sort and the choice.
  \<open>day\<close> and \<open>mtick\<close> are the market's clock, which \<open>_executeTrade\<close> stamps on the
  trade. The timestamp, the position score, the node count and the reasoning text of
  the analysis are left out: nothing of the selection reads them.
\<close>

definition evaluate_cycle ::
  "engine \<Rightarrow> int \<Rightarrow> move list \<Rightarrow> nat \<Rightarrow> nat \<Rightarrow> nat \<Rightarrow> analysis \<times> engine" where
  "evaluate_cycle e tick scored day mtick now =
     (let e1 = e\<lparr>lastEvalTick := tick\<rparr>;
          cands = sort_by_score scored;
          (ch, e2) =
            (case cands of
               [] \<Rightarrow> (HOLD, e1\<lparr>confidence := max 5 (0 * 10)\<rparr>)
             | best # _ \<Rightarrow>
                 if score best > 0.1
                 then (Best best,
                       executeTrade (e1\<lparr>confidence := min 99 (max 10 (score best * 20))\<rparr>)
                         best day mtick now)
                 else (HOLD, e1\<lparr>confidence := max 5 (score best * 10)\<rparr>));
          a = \<lparr>atick = tick, candidates = cands, chosen = ch, aconfidence = confidence e2\<rparr>;
          log = a # thinkingLog e2
      in (a,
          e2\<lparr>currentAnalysis := Some a,
             thinkingLog := (if length log > 50 then butlast log else log),
             signals := signals e2 @ [AnalysisEvent a]\<rparr>))"

text \<open>\<open>evaluate\<close>: \<open>null\<close> when the last evaluation is less than \<open>tradeFrequency\<close> ticks back.\<close>

definition evaluate ::
  "engine \<Rightarrow> int \<Rightarrow> move list \<Rightarrow> nat \<Rightarrow> nat \<Rightarrow> nat \<Rightarrow> analysis option \<times> engine" where
  "evaluate e tick scored day mtick now =
     (if tick - lastEvalTick e < tradeFrequency e then (None, e)
      else (case evaluate_cycle e tick scored day mtick now of (a, e') \<Rightarrow> (Some a, e')))"

section \<open>Decision on replayed data (app.js, \<open>_evaluateRealAI\<close>)\<close>

record real_candidate =
  raction :: string
  rqty :: real
  rstrategy :: string
  rreason :: string
  rscore :: real

text \<open>The locals \<open>action, qty, reason, strategy, confidence, score\<close> at the end of the call.\<close>

record real_decision =
  daction :: "string option"
  dqty :: real
  dreason :: string
  dstrategy :: string
  dconfidence :: real
  dscore :: real

definition no_decision :: real_decision where
  "no_decision =
     \<lparr>daction = None, dqty = 0, dreason = [], dstrategy = ''AUTO'', dconfidence = 50,
      dscore = 0\<rparr>"

text \<open>
  Lines 436 to 466 of \<open>_evaluateRealAI\<close>, from the candidates in the order the strategy
  checks pushed them: the decision, the result of the ledger call if one was made, and
  the ledger.
\<close>

definition evaluateRealAI_select ::
  "portfolio \<Rightarrow> real_candidate list \<Rightarrow> string \<Rightarrow> real \<Rightarrow> nat \<Rightarrow> nat \<Rightarrow> nat
     \<Rightarrow> real_decision \<times> trade option \<times> portfolio" where
  "evaluateRealAI_select p cands symbol price day tick now =
     (case sort_key (\<lambda>c. - rscore c) cands of
        [] \<Rightarrow> (no_decision, None, p)
      | best # _ \<Rightarrow>
          if rscore best > 0.5
          then
            (let d = \<lparr>daction = Some (raction best), dqty = rqty best, dreason = rreason best,
                      dstrategy = rstrategy best,
                      dconfidence = min 95 (max 20 (rscore best * 25)),
                      dscore = rscore best\<rparr>;
                 (result, p') =
                   (if raction best = ''BUY'' then buy p symbol (rqty best) price day tick now
                    else sell p symbol (rqty best) price day tick now)
             in (d, result, p'))
          else (no_decision, None, p))"

section \<open>Market simulator clock (market.js)\<close>

text \<open>
  The playback state of \<open>MarketEngine\<close>. \<open>m_intervalId\<close> is the one pending timer, kept
  as the delay \<open>setTimeout\<close> was given; \<open>None\<close> when no callback is pending. The prices
  of the instruments and the market events are drawn with \<open>Math.random\<close> and are not
  part of the model.
\<close>

datatype market_event = MPlay | MPause | MReset | MTick nat nat nat | MDayClose nat

record market =
  m_tick :: nat
  m_day :: nat
  m_ticksPerDay :: nat
  m_paused :: bool
  m_speed :: real
  m_intervalId :: "real option"
  m_baseInterval :: real
  m_emitted :: "market_event list"

definition MarketEngine :: market where
  "MarketEngine =
     \<lparr>m_tick = 0, m_day = 0, m_ticksPerDay = 78, m_paused = True, m_speed = 1,
      m_intervalId = None, m_baseInterval = 385, m_emitted = []\<rparr>"

definition m_emit :: "market \<Rightarrow> market_event \<Rightarrow> market" where
  "m_emit m ev = m\<lparr>m_emitted := m_emitted m @ [ev]\<rparr>"

definition m_schedule :: "market \<Rightarrow> market" where
  "m_schedule m =
     (if m_paused m then m
      else m\<lparr>m_intervalId := Some (max 10 (m_baseInterval m / m_speed m))\<rparr>)"

definition m_play :: "market \<Rightarrow> market" where
  "m_play m = (if \<not> m_paused m then m else m_emit (m_schedule (m\<lparr>m_paused := False\<rparr>)) MPlay)"

definition m_pause :: "market \<Rightarrow> market" where
  "m_pause m = m_emit (m\<lparr>m_paused := True, m_intervalId := None\<rparr>) MPause"

definition m_setSpeed :: "market \<Rightarrow> real \<Rightarrow> market" where
  "m_setSpeed m s =
     (let m1 = m\<lparr>m_speed := s\<rparr> in if \<not> m_paused m1 then m_play (m_pause m1) else m1)"

text \<open>The clock of \<open>_tick\<close>: the day rolls over every \<open>ticksPerDay\<close> ticks.\<close>

definition m_tick_step :: "market \<Rightarrow> market" where
  "m_tick_step m =
     (let intraIndex = m_tick m mod m_ticksPerDay m;
          isNewDay = (intraIndex = 0 \<and> m_tick m > 0);
          m1 = (if isNewDay then (m_emit m (MDayClose (m_day m)))\<lparr>m_day := Suc (m_day m)\<rparr> else m);
          m2 = m1\<lparr>m_tick := Suc (m_tick m1)\<rparr>
      in m_emit m2 (MTick (m_tick m2) (m_day m2) intraIndex))"

text \<open>The pending callback fires: \<open>_tick\<close>, then \<open>_schedule\<close>.\<close>

definition m_timer_fires :: "market \<Rightarrow> market" where
  "m_timer_fires m =
     (case m_intervalId m of
        None \<Rightarrow> m
      | Some d \<Rightarrow> m_schedule (m_tick_step (m\<lparr>m_intervalId := None\<rparr>)))"

section \<open>Replay driver (real-market.js)\<close>

record candle =
  c_date :: string
  c_open :: real
  c_high :: real
  c_low :: real
  c_close :: real
  c_volume :: real

record symbol_info =
  i_symbol :: string
  i_currency :: string
  i_exchange :: string
  i_type :: string
  i_regularMarketPrice :: real
  i_previousClose :: real

text \<open>
  The body of a successful response of the history endpoint. \<open>d_candles\<close> is \<open>None\<close> when
  the body has no \<open>candles\<close> field.
\<close>

record history_data =
  d_symbol :: string
  d_currency :: string
  d_exchange :: string
  d_instrumentType :: string
  d_regularMarketPrice :: real
  d_previousClose :: real
  d_candles :: "candle list option"

text \<open>
  What the awaited \<open>fetch\<close> of \<open>loadSymbol\<close> comes back with: a rejection (of \<open>fetch\<close> or of
  \<open>res.json()\<close>) with its message, a response that is not \<open>ok\<close> with the \<open>error\<close> field of
  its body, if any, and its status code in decimal, or a body.
\<close>

datatype response = Rejected string | NotOk "string option" string | Body history_data

datatype replay_event =
    Loading string
  | Loaded string symbol_info nat
  | Error string
  | Tick nat nat candle string real
  | DayClose nat
  | Play
  | Pause
  | Reset
  | Complete nat

text \<open>
  \<open>r_intervalId\<close> is the one pending timer, kept as the delay \<open>setTimeout\<close> was given;
  \<open>r_emitted\<close> is what the listeners have been sent, oldest first.
\<close>

record replay =
  r_symbol :: string
  r_symbolInfo :: "symbol_info option"
  r_candles :: "candle list"
  r_replayIndex :: nat
  r_replayCandles :: "candle list"
  r_paused :: bool
  r_speed :: real
  r_intervalId :: "real option"
  r_baseInterval :: real
  r_loading :: bool
  r_error :: "string option"
  r_range :: string
  r_day :: nat
  r_tick :: nat
  r_emitted :: "replay_event list"

definition RealMarketEngine :: replay where
  "RealMarketEngine =
     \<lparr>r_symbol = ''AAPL'', r_symbolInfo = None, r_candles = [], r_replayIndex = 0,
      r_replayCandles = [], r_paused = True, r_speed = 1, r_intervalId = None,
      r_baseInterval = 800, r_loading = False, r_error = None, r_range = ''1y'', r_day = 0,
      r_tick = 0, r_emitted = []\<rparr>"

definition r_emit :: "replay \<Rightarrow> replay_event \<Rightarrow> replay" where
  "r_emit s ev = s\<lparr>r_emitted := r_emitted s @ [ev]\<rparr>"

text \<open>\<open>String.prototype.toUpperCase\<close> on the ASCII letters, which ticker symbols are made of.\<close>

definition toUpperCase :: "string \<Rightarrow> string" where
  "toUpperCase str =
     map (\<lambda>c. if 97 \<le> (of_char c :: nat) \<and> (of_char c :: nat) \<le> 122
               then char_of ((of_char c :: nat) - 32) else c) str"

definition advanceReplay :: "replay \<Rightarrow> replay" where
  "advanceReplay s =
     (if r_replayIndex s \<ge> length (r_candles s) then s
      else
        (let c = r_candles s ! r_replayIndex s;
             s1 = s\<lparr>r_replayCandles := r_replayCandles s @ [c],
                    r_day := r_replayIndex s,
                    r_tick := Suc (r_tick s)\<rparr>;
             s2 = r_emit s1
                    (Tick (r_tick s1) (r_day s1) c (r_symbol s1)
                       ((real (r_replayIndex s1) + 1) / real (length (r_candles s1))));
             s3 = r_emit s2 (DayClose (r_day s2))
         in s3\<lparr>r_replayIndex := Suc (r_replayIndex s3)\<rparr>))"

definition r_schedule :: "replay \<Rightarrow> replay" where
  "r_schedule s =
     (if r_paused s then s
      else s\<lparr>r_intervalId := Some (max 10 (r_baseInterval s / r_speed s))\<rparr>)"

definition play :: "replay \<Rightarrow> replay" where
  "play s =
     (if \<not> r_paused s then s
      else if length (r_candles s) = 0 then s
      else if r_replayIndex s \<ge> length (r_candles s) then s
      else r_emit (r_schedule (s\<lparr>r_paused := False\<rparr>)) Play)"

definition pause :: "replay \<Rightarrow> replay" where
  "pause s = r_emit (s\<lparr>r_paused := True, r_intervalId := None\<rparr>) Pause"

definition setSpeed :: "replay \<Rightarrow> real \<Rightarrow> replay" where
  "setSpeed s v = (let s1 = s\<lparr>r_speed := v\<rparr> in if \<not> r_paused s1 then play (pause s1) else s1)"

definition reset :: "replay \<Rightarrow> replay" where
  "reset s =
     (let s1 = (pause s)\<lparr>r_replayIndex := 0, r_replayCandles := [], r_day := 0, r_tick := 0\<rparr>;
          s2 = (if length (r_candles s1) > 0 then advanceReplay s1 else s1)
      in r_emit s2 Reset)"

text \<open>The pending callback of \<open>_schedule\<close> fires.\<close>

definition timer_fires :: "replay \<Rightarrow> replay" where
  "timer_fires s =
     (case r_intervalId s of
        None \<Rightarrow> s
      | Some d \<Rightarrow>
          (let s0 = s\<lparr>r_intervalId := None\<rparr> in
           if r_replayIndex s0 < length (r_candles s0) then r_schedule (advanceReplay s0)
           else r_emit (s0\<lparr>r_paused := True\<rparr>) (Complete (length (r_candles s0)))))"

text \<open>
  \<open>loadSymbol\<close> is asynchronous: it runs to the \<open>await\<close> of the fetch (lines 32 to 37),
  gives up control, and runs on when the response is there (lines 41 to 82). Other
  calls of the driver can run in between, so the model has the two parts apart.
  The second part returns what the promise settles with: \<open>Inl\<close> the message of the error
  thrown again, or \<open>Inr\<close> the data.
\<close>

definition loadSymbol_begin :: "replay \<Rightarrow> string \<Rightarrow> string \<Rightarrow> replay" where
  "loadSymbol_begin s symbol rng =
     (let s1 = (pause s)\<lparr>r_loading := True, r_error := None, r_symbol := toUpperCase symbol,
                          r_range := rng\<rparr>
      in r_emit s1 (Loading (r_symbol s1)))"

definition load_failed :: "replay \<Rightarrow> string \<Rightarrow> (string + history_data) \<times> replay" where
  "load_failed s msg = (Inl msg, r_emit (s\<lparr>r_loading := False, r_error := Some msg\<rparr>) (Error msg))"

definition loadSymbol_end :: "replay \<Rightarrow> response \<Rightarrow> (string + history_data) \<times> replay" where
  "loadSymbol_end s resp =
     (case resp of
        Rejected msg \<Rightarrow> load_failed s msg
      | NotOk err status \<Rightarrow>
          load_failed s
            (case err of None \<Rightarrow> ''HTTP '' @ status
             | Some e \<Rightarrow> if e = [] then ''HTTP '' @ status else e)
      | Body data \<Rightarrow>
          (case d_candles data of
             None \<Rightarrow> load_failed s ''No historical data available''
           | Some cs \<Rightarrow>
               if length cs = 0 then load_failed s ''No historical data available''
               else
                 (let info = \<lparr>i_symbol = d_symbol data, i_currency = d_currency data,
                              i_exchange = d_exchange data, i_type = d_instrumentType data,
                              i_regularMarketPrice = d_regularMarketPrice data,
                              i_previousClose = d_previousClose data\<rparr>;
                      s1 = s\<lparr>r_symbolInfo := Some info, r_candles := cs, r_replayIndex := 0,
                             r_replayCandles := [], r_day := 0, r_tick := 0,
                             r_loading := False\<rparr>;
                      s2 = r_emit s1 (Loaded (r_symbol s1) info (length (r_candles s1)))
                  in (Inr data, advanceReplay s2))))"

definition loadSymbol ::
  "replay \<Rightarrow> string \<Rightarrow> string \<Rightarrow> response \<Rightarrow> (string + history_data) \<times> replay" where
  "loadSymbol s symbol rng resp = loadSymbol_end (loadSymbol_begin s symbol rng) resp"

text \<open>Whether a signal is a tick, and the calls a client can make on a driver.\<close>

fun is_tick :: "replay_event \<Rightarrow> bool" where
  "is_tick (Tick _ _ _ _ _) = True"
| "is_tick _ = False"

datatype replay_call =
    CallPlay
  | CallPause
  | CallReset
  | CallSetSpeed real
  | TimerFires
  | CallLoad string string response

fun replay_step :: "replay \<Rightarrow> replay_call \<Rightarrow> replay" where
  "replay_step s CallPlay = play s"
| "replay_step s CallPause = pause s"
| "replay_step s CallReset = reset s"
| "replay_step s (CallSetSpeed v) = setSpeed s v"
| "replay_step s TimerFires = timer_fires s"
| "replay_step s (CallLoad symbol rng resp) = snd (loadSymbol s symbol rng resp)"

text \<open>A response that carries no candle: every failure, and a body with none.\<close>

fun empty_series :: "response \<Rightarrow> bool" where
  "empty_series (Body data) = (case d_candles data of None \<Rightarrow> True | Some cs \<Rightarrow> cs = [])"
| "empty_series _ = True"

fun call_without_data :: "replay_call \<Rightarrow> bool" where
  "call_without_data (CallLoad symbol rng resp) = empty_series resp"
| "call_without_data _ = True"

section \<open>Sample inputs\<close>

text \<open>Concrete candidates and a response without candles, for the instances below.\<close>

definition weak_move :: move where
  "weak_move = \<lparr>action = ''BUY'', msymbol = ''QBIT'', mqty = 5, mprice = 42,
                strategy = ''scalping'', reason = ''3-bar dip'', edge = 0.01, score = 0.05\<rparr>"

definition strong_move :: move where
  "strong_move = \<lparr>action = ''BUY'', msymbol = ''NOVA'', mqty = 10, mprice = 185,
                  strategy = ''breakout'', reason = ''Price broke above range high'',
                  edge = 0.06, score = 0.3\<rparr>"

definition weak_candidate :: real_candidate where
  "weak_candidate = \<lparr>raction = ''SELL'', rqty = 3, rstrategy = ''Momentum'',
                     rreason = ''Downtrend'', rscore = 0.4\<rparr>"

definition strong_candidate :: real_candidate where
  "strong_candidate = \<lparr>raction = ''BUY'', rqty = 4, rstrategy = ''BB Bounce'',
                       rreason = ''Price below lower BB'', rscore = 1.2\<rparr>"

definition empty_body :: response where
  "empty_body =
     Body \<lparr>d_symbol = ''MSFT'', d_currency = ''USD'', d_exchange = ''NMS'',
           d_instrumentType = ''EQUITY'', d_regularMarketPrice = 410, d_previousClose = 405,
           d_candles = Some []\<rparr>"

section \<open>Properties of the ledger\<close>

subsection \<open>The scenario\<close>

text \<open>
  C1. Starting with cash 10000, buying 10 at 100 leaves cash 9000 and the holding
  (qty 10, average cost 100); selling 5 at 120 next leaves cash 9600, records the
  realized P&L 100 on the SELL trade and leaves the holding (qty 5, average cost 100).
  This holds for every symbol, day, tick and clock reading.
\<close>

theorem scenario_buy_then_sell:
  "(let p0 = Portfolio nm 10000;
        (t1, p1) = buy p0 symbol 10 100 day tick now;
        (t2, p2) = sell p1 symbol 5 120 day' tick' now'
    in cash p1 = 9000
       \<and> getHolding p1 symbol = Some \<lparr>qty = 10, avgCost = Fin 100\<rparr>
       \<and> cash p2 = 9600
       \<and> map_option tside t2 = Some ''SELL''
       \<and> map_option tpnl t2 = Some (Some (Fin 100))
       \<and> getHolding p2 symbol = Some \<lparr>qty = 5, avgCost = Fin 100\<rparr>)"
  by (simp add: Portfolio_def buy_def buy_fill_def sell_def getHolding_def jsdiv_def
      Let_def)

subsection \<open>Failed trades\<close>

lemma unaffordable_share:
  fixes c price q :: real
  assumes "1 \<le> q" "0 < price" "\<lfloor>c / price\<rfloor> \<le> 0"
  shows "q * price > c"
proof -
  from assms(3) have "c / price < 1" by (simp add: floor_le_iff)
  with assms(2) have "c < price" by (simp add: pos_divide_less_eq)
  moreover from assms(1,2) have "1 * price \<le> q * price"
    by (simp only: mult_right_mono less_imp_le)
  ultimately show ?thesis by simp
qed

text \<open>
  A request that costs more than the cash is turned away when the cash affords no share,
  which for a request of at least one share at a positive price is whenever
  \<open>floor (cash / price) \<le> 0\<close>. \<open>sell\<close> returns \<open>null\<close> when the symbol is not held or is
  held with a quantity \<open>\<le> 0\<close>. Whenever either call returns \<open>null\<close> the whole portfolio,
  so its cash, holdings and trades, is what it was before the call.
\<close>

lemma null_returns_are_noops:
  "(q * price > cash p \<and> \<lfloor>cash p / price\<rfloor> \<le> 0
      \<longrightarrow> buy p symbol q price day tick now = (None, p))
   \<and> (1 \<le> q \<and> 0 < price \<and> \<lfloor>cash p / price\<rfloor> \<le> 0
      \<longrightarrow> buy p symbol q price day tick now = (None, p))
   \<and> (fst (buy p symbol q price day tick now) = None
      \<longrightarrow> snd (buy p symbol q price day tick now) = p)
   \<and> (getHolding p symbol = None \<or> (\<exists>h. getHolding p symbol = Some h \<and> qty h \<le> 0)
      \<longrightarrow> sell p symbol q price day tick now = (None, p))
   \<and> (fst (sell p symbol q price day tick now) = None
      \<longrightarrow> snd (sell p symbol q price day tick now) = p)"
proof (intro conjI impI)
  assume "q * price > cash p \<and> \<lfloor>cash p / price\<rfloor> \<le> 0"
  then show "buy p symbol q price day tick now = (None, p)"
    by (simp add: buy_def Let_def)
next
  assume h: "1 \<le> q \<and> 0 < price \<and> \<lfloor>cash p / price\<rfloor> \<le> 0"
  then have "q * price > cash p"
    using unaffordable_share[of q price "cash p"] by simp
  with h show "buy p symbol q price day tick now = (None, p)"
    by (simp add: buy_def Let_def)
next
  assume "fst (buy p symbol q price day tick now) = None"
  then show "snd (buy p symbol q price day tick now) = p"
    by (auto simp: buy_def buy_fill_def Let_def split: if_splits)
next
  assume "getHolding p symbol = None \<or> (\<exists>h. getHolding p symbol = Some h \<and> qty h \<le> 0)"
  then show "sell p symbol q price day tick now = (None, p)"
    by (auto simp: sell_def getHolding_def)
next
  assume "fst (sell p symbol q price day tick now) = None"
  then show "snd (sell p symbol q price day tick now) = p"
    by (auto simp: sell_def Let_def split: option.splits if_splits)
qed

text \<open>
  C7. The specification: \<open>buy\<close> returns \<open>null\<close> when the quantity left after the clamp to
  what the cash affords is \<open>\<le> 0\<close>, \<open>sell\<close> returns \<open>null\<close> when the symbol is not held,
  and a call that returns \<open>null\<close> changes nothing. The \<open>sell\<close> half and the no-op half
  hold (lemma above). \<open>buy\<close> tests \<open>qty \<le> 0\<close> only inside the clamp, so a request for
  a negative quantity is never clamped and is filled although the cash affords no share.
  Evaluated: from cash 10000 a buy of 199 at 50 leaves cash 50; at the price 100 that
  affords \<open>floor (50 / 100) = 0\<close> shares; \<open>buy(symbol, -5, 100)\<close> then returns a trade,
  raises the cash to 550 and leaves a holding of \<open>-5\<close>. The same from a portfolio
  opened with cash 50.
\<close>

theorem buy_fills_unaffordable_request:
  "(let p1 = snd (buy (Portfolio nm 10000) ''NOVA'' 199 50 day tick now);
        (t, p2) = buy p1 ''QBIT'' (- 5) 100 day' tick' now';
        (t', p3) = buy (Portfolio nm 50) symbol (- 5) 100 day' tick' now'
    in cash p1 = 50
       \<and> \<lfloor>cash p1 / 100\<rfloor> = 0
       \<and> t \<noteq> None
       \<and> cash p2 = 550
       \<and> getHolding p2 ''QBIT'' = Some \<lparr>qty = - 5, avgCost = Fin 100\<rparr>
       \<and> t' \<noteq> None
       \<and> cash p3 = 550
       \<and> getHolding p3 symbol = Some \<lparr>qty = - 5, avgCost = Fin 100\<rparr>)"
  by (simp add: Portfolio_def buy_def buy_fill_def getHolding_def jsdiv_def Let_def)

subsection \<open>Runs with positive quantities and prices\<close>

lemma sum_update:
  "sum_list (map g (AList.update k v hs))
     = sum_list (map g hs) - (case map_of hs k of None \<Rightarrow> 0 | Some h \<Rightarrow> g (k, h)) + g (k, v)"
  for g :: "string \<times> holding \<Rightarrow> real"
  by (induction hs) auto

lemma sum_delete:
  "distinct (map fst hs) \<Longrightarrow>
   sum_list (map g (AList.delete k hs))
     = sum_list (map g hs) - (case map_of hs k of None \<Rightarrow> 0 | Some h \<Rightarrow> g (k, h))"
  for g :: "string \<times> holding \<Rightarrow> real"
proof (induction hs)
  case Nil
  then show ?case by simp
next
  case (Cons e hs)
  show ?case
  proof (cases "fst e = k")
    case True
    with Cons.prems have "k \<notin> fst ` set hs" by auto
    with True show ?thesis by (cases e) simp
  next
    case False
    with Cons show ?thesis by (cases e) simp
  qed
qed

lemma all_update:
  "list_all P hs \<Longrightarrow> P (k, v) \<Longrightarrow> list_all P (AList.update k v hs)"
  by (induction hs) auto

lemma all_delete: "list_all P hs \<Longrightarrow> list_all P (AList.delete k hs)"
  by (induction hs) auto

lemma map_of_all: "list_all P hs \<Longrightarrow> map_of hs k = Some h \<Longrightarrow> P (k, h)"
  by (induction hs) (auto split: if_splits)

lemma bookValue_sound:
  "list_all sound_holding hs \<Longrightarrow>
   fold (\<lambda>(sym, h) s. num_add s (num_scale (qty h) (avgCost h))) hs (Fin c)
     = Fin (c + sum_list (map basis hs))"
proof (induction hs arbitrary: c)
  case Nil
  then show ?case by simp
next
  case (Cons e hs)
  obtain s h where e: "e = (s, h)" by (cases e)
  with Cons.prems obtain a where a: "avgCost h = Fin a"
    by (cases "avgCost h") (auto simp: sound_holding_def)
  from Cons.prems have "list_all sound_holding hs" by simp
  from Cons.IH[OF this, of "c + qty h * a"] e a show ?case
    by (simp add: basis_def add.assoc)
qed

lemma buy_fill_sound:
  assumes wf: "well_formed p" and bal: "balanced p" and q: "0 < q" and afford: "q * price \<le> cash p"
  shows "well_formed (snd (buy_fill p symbol q price day tick now))
       \<and> balanced (snd (buy_fill p symbol q price day tick now))"
proof -
  obtain r where r: "realizedPnL p = Fin r"
    and id: "cash p + sum_list (map basis (holdings p)) = startingCash p + r"
    using bal by (cases "realizedPnL p") (auto simp: balanced_def)
  define h where "h = (case map_of (holdings p) symbol of
                 None \<Rightarrow> \<lparr>qty = 0, avgCost = Fin 0\<rparr> | Some h0 \<Rightarrow> h0)"
  have hq: "0 \<le> qty h \<and> avgCost h \<noteq> NonFinite"
  proof (cases "map_of (holdings p) symbol")
    case None
    then show ?thesis by (simp add: h_def)
  next
    case (Some h0)
    with wf have "sound_holding (symbol, h0)"
      using map_of_all[of sound_holding "holdings p" symbol h0] by (simp add: well_formed_def)
    with Some show ?thesis by (simp add: h_def sound_holding_def)
  qed
  then obtain a where a: "avgCost h = Fin a" by (cases "avgCost h") auto
  define h' where "h' = \<lparr>qty = qty h + q, avgCost = Fin ((a * qty h + q * price) / (qty h + q))\<rparr>"
  have pos: "0 < qty h + q" using hq q by simp
  have ne: "qty h + q \<noteq> 0" using pos by simp
  have p': "snd (buy_fill p symbol q price day tick now)
      = p\<lparr>cash := cash p - q * price, holdings := AList.update symbol h' (holdings p),
          trades := trades p @ [\<lparr>tid = Suc (tradeId p), tsymbol = symbol, tside = ''BUY'', tqty = q,
               tprice = price, ttotal = q * price, tpnl = None, tday = day, ttick = tick,
               ttime = now\<rparr>],
          tradeId := Suc (tradeId p)\<rparr>"
    using a ne by (simp add: buy_fill_def Let_def h_def[symmetric] h'_def jsdiv_def)
  have old: "(case map_of (holdings p) symbol of None \<Rightarrow> 0 | Some h0 \<Rightarrow> basis (symbol, h0))
       = qty h * a"
    using a by (auto simp: h_def basis_def split: option.splits)
  have new: "basis (symbol, h') = a * qty h + q * price"
    using ne by (simp add: basis_def h'_def)
  have sh: "sound_holding (symbol, h')"
    using pos by (simp add: sound_holding_def h'_def)
  have wf': "well_formed (snd (buy_fill p symbol q price day tick now))"
    using wf afford sh by (simp add: p' well_formed_def distinct_update all_update)
  have "realizedPnL (snd (buy_fill p symbol q price day tick now)) = Fin r"
    using r by (simp add: p' realizedPnL_def)
  moreover have "cash p - q * price + sum_list (map basis (AList.update symbol h' (holdings p)))
      = startingCash p + r"
    using id by (simp add: sum_update old new)
  ultimately have "balanced (snd (buy_fill p symbol q price day tick now))"
    by (simp add: balanced_def p')
  with wf' show ?thesis by simp
qed

lemma floor_affordable:
  fixes c price :: real
  assumes "0 < price"
  shows "real_of_int \<lfloor>c / price\<rfloor> * price \<le> c"
proof -
  have "real_of_int \<lfloor>c / price\<rfloor> \<le> c / price" by simp
  with assms have "real_of_int \<lfloor>c / price\<rfloor> * price \<le> (c / price) * price"
    by (simp only: mult_right_mono less_imp_le)
  with assms show ?thesis by simp
qed

lemma buy_sound:
  assumes "well_formed p" "balanced p" "0 < q" "0 < price"
  shows "well_formed (snd (buy p symbol q price day tick now))
       \<and> balanced (snd (buy p symbol q price day tick now))"
proof (cases "q * price > cash p")
  case True
  show ?thesis
  proof (cases "real_of_int \<lfloor>cash p / price\<rfloor> \<le> 0")
    case True
    with assms \<open>q * price > cash p\<close> show ?thesis by (simp add: buy_def)
  next
    case False
    then have "0 < real_of_int \<lfloor>cash p / price\<rfloor>" by simp
    from buy_fill_sound[OF assms(1,2) this floor_affordable[OF assms(4)]] False \<open>q * price > cash p\<close>
    show ?thesis by (simp add: buy_def Let_def)
  qed
next
  case False
  then have "q * price \<le> cash p" by simp
  from buy_fill_sound[OF assms(1,2,3) this] False show ?thesis by (simp add: buy_def Let_def)
qed

lemma sell_sound:
  assumes wf: "well_formed p" and bal: "balanced p" and q: "0 < q" and price: "0 < price"
  shows "well_formed (snd (sell p symbol q price day tick now))
       \<and> balanced (snd (sell p symbol q price day tick now))"
proof (cases "map_of (holdings p) symbol")
  case None
  with assms show ?thesis by (simp add: sell_def)
next
  case (Some h)
  obtain r where r: "realizedPnL p = Fin r"
    and id: "cash p + sum_list (map basis (holdings p)) = startingCash p + r"
    using bal by (cases "realizedPnL p") (auto simp: balanced_def)
  from wf Some have sh: "sound_holding (symbol, h)"
    using map_of_all[of sound_holding "holdings p" symbol h] by (simp add: well_formed_def)
  then obtain a where a: "avgCost h = Fin a" and hq: "0 < qty h"
    by (cases "avgCost h") (auto simp: sound_holding_def)
  define q' where "q' = min q (qty h)"
  have q'pos: "0 < q'" and q'le: "q' \<le> qty h" using q hq by (simp_all add: q'_def)
  define t where "t = \<lparr>tid = Suc (tradeId p), tsymbol = symbol, tside = ''SELL'', tqty = q',
                         tprice = price, ttotal = q' * price, tpnl = Some (Fin (q' * price - q' * a)),
                         tday = day, ttick = tick, ttime = now\<rparr>"
  have p': "snd (sell p symbol q price day tick now)
      = p\<lparr>cash := cash p + q' * price,
          holdings := (if qty h - q' \<le> 0 then AList.delete symbol (holdings p)
                       else AList.update symbol (h\<lparr>qty := qty h - q'\<rparr>) (holdings p)),
          trades := trades p @ [t],
          tradeId := Suc (tradeId p)\<rparr>"
    using Some a hq q'pos by (simp add: sell_def Let_def q'_def[symmetric] t_def)
  have old: "basis (symbol, h) = qty h * a" using a by (simp add: basis_def)
  have rev: "0 \<le> q' * price" using q'pos price by simp
  have real: "realizedPnL (snd (sell p symbol q price day tick now)) = Fin (r + (q' * price - q' * a))"
    using r by (simp add: p' realizedPnL_def t_def)
  show ?thesis
  proof (cases "qty h - q' \<le> 0")
    case True
    with q'le have eq: "q' = qty h" by simp
    have wf': "well_formed (snd (sell p symbol q price day tick now))"
      using wf rev True by (simp add: p' well_formed_def distinct_delete all_delete)
    have "cash p + q' * price + sum_list (map basis (AList.delete symbol (holdings p)))
        = startingCash p + (r + (q' * price - q' * a))"
      using id wf Some by (simp add: sum_delete well_formed_def old eq)
    with real True have "balanced (snd (sell p symbol q price day tick now))"
      by (simp add: balanced_def p')
    with wf' show ?thesis by simp
  next
    case False
    then have left: "0 < qty h - q'" by simp
    have sh': "sound_holding (symbol, h\<lparr>qty := qty h - q'\<rparr>)"
      using left a by (simp add: sound_holding_def)
    have wf': "well_formed (snd (sell p symbol q price day tick now))"
      using wf rev False sh' by (simp add: p' well_formed_def distinct_update all_update)
    have new: "basis (symbol, h\<lparr>qty := qty h - q'\<rparr>) = (qty h - q') * a"
      using a by (simp add: basis_def)
    have "cash p + q' * price + sum_list (map basis (AList.update symbol (h\<lparr>qty := qty h - q'\<rparr>) (holdings p)))
        = startingCash p + (r + (q' * price - q' * a))"
      using id Some by (simp add: sum_update old new algebra_simps)
    with real False have "balanced (snd (sell p symbol q price day tick now))"
      by (simp add: balanced_def p')
    with wf' show ?thesis by simp
  qed
qed

lemma apply_op_sound:
  "well_formed p \<Longrightarrow> balanced p \<Longrightarrow> positive_op op \<Longrightarrow>
   well_formed (apply_op p op) \<and> balanced (apply_op p op)"
  by (cases op) (simp_all add: buy_sound sell_sound)

lemma run_sound:
  "well_formed p \<Longrightarrow> balanced p \<Longrightarrow> list_all positive_op ops \<Longrightarrow>
   well_formed (run p ops) \<and> balanced (run p ops)"
  unfolding run_def
proof (induction ops arbitrary: p)
  case Nil
  then show ?case by simp
next
  case (Cons op ops)
  from Cons.prems have "well_formed (apply_op p op) \<and> balanced (apply_op p op)"
    by (simp add: apply_op_sound)
  with Cons.IH[of "apply_op p op"] Cons.prems(3) show ?case by simp
qed

lemma initial_sound: "0 \<le> c \<Longrightarrow> well_formed (Portfolio nm c) \<and> balanced (Portfolio nm c)"
  by (simp add: Portfolio_def well_formed_def balanced_def realizedPnL_def)

text \<open>
  On runs that ask for positive quantities at positive prices only, starting from a new
  portfolio with non-negative cash, the cash stays \<open>\<ge> 0\<close>, every holding has a quantity
  \<open>> 0\<close>, and the book value is the starting cash plus the realized P&L.
\<close>

lemma positive_runs_keep_the_books:
  assumes "0 \<le> c" "list_all positive_op ops"
  shows "0 \<le> cash (run (Portfolio nm c) ops)
    \<and> list_all (\<lambda>e. 0 < qty (snd e)) (holdings (run (Portfolio nm c) ops))
    \<and> bookValue (run (Portfolio nm c) ops)
         = num_add (Fin (startingCash (run (Portfolio nm c) ops)))
             (realizedPnL (run (Portfolio nm c) ops))"
proof -
  let ?p = "run (Portfolio nm c) ops"
  from run_sound[of "Portfolio nm c" ops] initial_sound[OF assms(1), of nm] assms(2)
  have wf: "well_formed ?p" and bal: "balanced ?p" by simp_all
  from wf have c: "0 \<le> cash ?p" by (simp add: well_formed_def)
  from wf have all: "list_all sound_holding (holdings ?p)" by (simp add: well_formed_def)
  then have pos: "list_all (\<lambda>e. 0 < qty (snd e)) (holdings ?p)"
    by (simp add: list_all_iff sound_holding_def)
  from bal obtain r where r: "realizedPnL ?p = Fin r"
    and id: "cash ?p + sum_list (map basis (holdings ?p)) = startingCash ?p + r"
    by (cases "realizedPnL ?p") (auto simp: balanced_def)
  from bookValue_sound[OF all, of "cash ?p"] r id
  have "bookValue ?p = num_add (Fin (startingCash ?p)) (realizedPnL ?p)"
    by (simp add: bookValue_def)
  with c pos show ?thesis by simp
qed

subsection \<open>A buy of a negative quantity\<close>

text \<open>
  C2. The specification: over every sequence of buys and sells from the initial state, every
  holding's quantity stays \<open>\<ge> 0\<close> and the cash stays \<open>\<ge> 0\<close>. \<open>sell\<close> turns away a
  request with \<open>qty \<le> 0\<close> (line 58); \<open>buy\<close> tests \<open>qty \<le> 0\<close> only inside the clamp,
  so a request for a negative quantity costs less than the cash, is not clamped and is
  filled. Evaluated on a new portfolio with cash 10000: \<open>buy(symbol, -5, 100)\<close> returns
  a trade, leaves the holding with quantity \<open>-5\<close> and raises the cash to 10500.
\<close>

theorem buy_negative_quantity:
  "(let (t, p) = buy (Portfolio nm 10000) symbol (- 5) 100 day tick now
    in t \<noteq> None
       \<and> getHolding p symbol = Some \<lparr>qty = - 5, avgCost = Fin 100\<rparr>
       \<and> cash p = 10500)"
  by (simp add: Portfolio_def buy_def buy_fill_def getHolding_def jsdiv_def Let_def)

text \<open>
  C10. The accounting identity: over every sequence of successful buys and sells from the initial
  state, the cash plus the sum over the holdings of quantity times average cost equals
  the starting cash plus the sum of the P&L recorded on the SELL trades. After the buy
  of \<open>-5\<close> above, a buy of \<open>5\<close> brings the holding's total to \<open>0\<close>: the new average
  cost is a quotient by zero, \<open>NaN\<close> in the source, the holding stays in the map with
  quantity \<open>0\<close>, and the book value is \<open>NaN\<close>, not the starting cash 10000.
\<close>

theorem buy_to_zero_total:
  "(let p = run (Portfolio nm 10000) [Buy symbol (- 5) 100 d k n, Buy symbol 5 100 d' k' n']
    in getHolding p symbol = Some \<lparr>qty = 0, avgCost = NonFinite\<rparr>
       \<and> bookValue p = NonFinite
       \<and> realizedPnL p = Fin 0
       \<and> startingCash p = 10000
       \<and> length (trades p) = 2)"
  by (simp add: run_def Portfolio_def buy_def buy_fill_def getHolding_def jsdiv_def Let_def
      bookValue_def realizedPnL_def)

subsection \<open>Drawdown\<close>

text \<open>
  C6. \<open>updateMetrics\<close> never lowers \<open>maxDrawdown\<close>: after a call from any portfolio and
  with any price map the field is at least what it was, and so it is after any sequence
  of calls. The trades made between two calls leave the field as it is.
\<close>

theorem maxDrawdown_never_decreases:
  "maxDrawdown p \<le> maxDrawdown (updateMetrics p marketPrices)
   \<and> maxDrawdown p \<le> maxDrawdown (fold (\<lambda>prices q. updateMetrics q prices) priceMaps p)
   \<and> maxDrawdown (snd (buy p symbol q price day tick now)) = maxDrawdown p
   \<and> maxDrawdown (snd (sell p symbol q price day tick now)) = maxDrawdown p"
proof (intro conjI)
  show "maxDrawdown (snd (buy p symbol q price day tick now)) = maxDrawdown p"
    by (simp add: buy_def buy_fill_def Let_def)
  show "maxDrawdown (snd (sell p symbol q price day tick now)) = maxDrawdown p"
    by (simp add: sell_def Let_def split: option.splits)
  show step: "maxDrawdown p \<le> maxDrawdown (updateMetrics p marketPrices)" for p marketPrices
    by (simp add: updateMetrics_def Let_def)
  show "maxDrawdown p \<le> maxDrawdown (fold (\<lambda>prices q. updateMetrics q prices) priceMaps p)"
  proof (induction priceMaps arbitrary: p)
    case Nil
    show ?case by simp
  next
    case (Cons m ms)
    have "maxDrawdown p \<le> maxDrawdown (updateMetrics p m)" by (rule step)
    also have "\<dots> \<le> maxDrawdown (fold (\<lambda>prices q. updateMetrics q prices) ms (updateMetrics p m))"
      by (rule Cons.IH)
    finally show ?case by simp
  qed
qed

section \<open>Properties of the indicators\<close>

subsection \<open>Where the results are \<open>null\<close>\<close>

lemma RSI_step_None: "fst (RSI_step closes period i st) = None \<longleftrightarrow> i = 0 \<or> int i < period"
  by (cases st) (auto simp: RSI_step_def Let_def)

lemma RSI_loop_None:
  "map (\<lambda>v. v = None) (RSI_loop closes period xs st) = map (\<lambda>i. i = 0 \<or> int i < period) xs"
  by (induction xs arbitrary: st) (simp_all add: RSI_step_None)

lemma RSI_loop_length: "length (RSI_loop closes period xs st) = length xs"
  by (induction xs arbitrary: st) simp_all

lemma EMA_loop_None:
  "map (\<lambda>v. v = None) (EMA_loop data period xs e) = map (\<lambda>i. int i < period - 1) xs"
  by (induction xs arbitrary: e) (simp_all add: Let_def)

lemma EMA_loop_length: "length (EMA_loop data period xs e) = length xs"
  by (induction xs arbitrary: e) (simp_all add: Let_def)

lemma SMA_nth_None: "i < length data \<Longrightarrow> (SMA data period ! i = None) = (int i < period - 1)"
  by (simp add: SMA_def)

lemma bands_at_None:
  assumes "i < length closes"
  shows "(fst (bands_at closes period mult (SMA closes period) i) = None) = (int i < period - 1)"
    and "(fst (snd (bands_at closes period mult (SMA closes period) i)) = None) = (int i < period - 1)"
    and "(snd (snd (bands_at closes period mult (SMA closes period) i)) = None) = (int i < period - 1)"
  using SMA_nth_None[OF assms, of period]
  by (auto simp: bands_at_def Let_def split: option.splits)

lemma all_null:
  assumes "map (\<lambda>v. v = None) xs = map P [0 ..< n]" and "\<forall>i<n. P i"
  shows "xs = replicate n None"
proof -
  from assms(1) have len: "length xs = n"
    by (metis length_map length_upt diff_zero)
  have "xs ! i = None" if "i < n" for i
  proof -
    from assms(1) have "map (\<lambda>v. v = None) xs ! i = map P [0 ..< n] ! i" by simp
    with that len assms(2) show ?thesis by simp
  qed
  with len show ?thesis
    by (simp add: list_eq_iff_nth_eq)
qed

text \<open>
  C5. For every input sequence and every period \<open>\<ge> 1\<close>, \<open>SMA\<close>, \<open>EMA\<close>, \<open>RSI\<close> and the
  three bands of \<open>BollingerBands\<close> are as long as the input. An entry of \<open>SMA\<close>, \<open>EMA\<close>
  or a band is \<open>null\<close> exactly at the indices \<open>i < period - 1\<close>, an entry of \<open>RSI\<close>
  exactly at the indices \<open>i < period\<close>, and every later entry is a number. On an input
  shorter than the warm-up the result is \<open>null\<close> throughout, and no call fails.
\<close>

theorem warm_up_is_null:
  "1 \<le> period \<longrightarrow>
   length (SMA data period) = length data
   \<and> map (\<lambda>v. v = None) (SMA data period) = map (\<lambda>i. int i < period - 1) [0 ..< length data]
   \<and> length (EMA data period) = length data
   \<and> map (\<lambda>v. v = None) (EMA data period) = map (\<lambda>i. int i < period - 1) [0 ..< length data]
   \<and> length (upper (BollingerBands data period mult)) = length data
   \<and> length (middle (BollingerBands data period mult)) = length data
   \<and> length (lower (BollingerBands data period mult)) = length data
   \<and> map (\<lambda>v. v = None) (upper (BollingerBands data period mult))
       = map (\<lambda>i. int i < period - 1) [0 ..< length data]
   \<and> map (\<lambda>v. v = None) (middle (BollingerBands data period mult))
       = map (\<lambda>i. int i < period - 1) [0 ..< length data]
   \<and> map (\<lambda>v. v = None) (lower (BollingerBands data period mult))
       = map (\<lambda>i. int i < period - 1) [0 ..< length data]
   \<and> length (RSI data period) = length data
   \<and> map (\<lambda>v. v = None) (RSI data period) = map (\<lambda>i. int i < period) [0 ..< length data]
   \<and> (int (length data) \<le> period - 1 \<longrightarrow>
        SMA data period = replicate (length data) None
      \<and> EMA data period = replicate (length data) None
      \<and> upper (BollingerBands data period mult) = replicate (length data) None
      \<and> middle (BollingerBands data period mult) = replicate (length data) None
      \<and> lower (BollingerBands data period mult) = replicate (length data) None)
   \<and> (int (length data) \<le> period \<longrightarrow> RSI data period = replicate (length data) None)"
proof
  assume p: "1 \<le> period"
  have sma_len: "length (SMA data period) = length data"
    by (simp add: SMA_def)
  have sma: "map (\<lambda>v. v = None) (SMA data period) = map (\<lambda>i. int i < period - 1) [0 ..< length data]"
    by (simp add: SMA_def)
  have ema_len: "length (EMA data period) = length data"
    by (simp add: EMA_def EMA_loop_length)
  have ema: "map (\<lambda>v. v = None) (EMA data period) = map (\<lambda>i. int i < period - 1) [0 ..< length data]"
    by (simp add: EMA_def EMA_loop_None)
  have len: "length (upper (BollingerBands data period mult)) = length data
      \<and> length (middle (BollingerBands data period mult)) = length data
      \<and> length (lower (BollingerBands data period mult)) = length data"
    by (simp add: BollingerBands_def Let_def)
  have up: "map (\<lambda>v. v = None) (upper (BollingerBands data period mult))
       = map (\<lambda>i. int i < period - 1) [0 ..< length data]"
    by (simp add: BollingerBands_def Let_def bands_at_None)
  have mid: "map (\<lambda>v. v = None) (middle (BollingerBands data period mult))
       = map (\<lambda>i. int i < period - 1) [0 ..< length data]"
    by (simp add: BollingerBands_def Let_def bands_at_None)
  have low: "map (\<lambda>v. v = None) (lower (BollingerBands data period mult))
       = map (\<lambda>i. int i < period - 1) [0 ..< length data]"
    by (simp add: BollingerBands_def Let_def bands_at_None)
  have rsi_len: "length (RSI data period) = length data"
    by (simp add: RSI_def RSI_loop_length)
  have "(i = 0 \<or> int i < period) = (int i < period)" for i :: nat
    using p by auto
  then have rsi: "map (\<lambda>v. v = None) (RSI data period) = map (\<lambda>i. int i < period) [0 ..< length data]"
    by (simp add: RSI_def RSI_loop_None)
  have short: "SMA data period = replicate (length data) None
      \<and> EMA data period = replicate (length data) None
      \<and> upper (BollingerBands data period mult) = replicate (length data) None
      \<and> middle (BollingerBands data period mult) = replicate (length data) None
      \<and> lower (BollingerBands data period mult) = replicate (length data) None"
    if "int (length data) \<le> period - 1"
  proof -
    from that have a: "\<forall>i<length data. int i < period - 1" by auto
    from all_null[OF sma a] all_null[OF ema a] all_null[OF up a] all_null[OF mid a]
      all_null[OF low a]
    show ?thesis by simp
  qed
  have short_rsi: "RSI data period = replicate (length data) None"
    if "int (length data) \<le> period"
  proof -
    from that have a: "\<forall>i<length data. int i < period" by auto
    from all_null[OF rsi a] show ?thesis .
  qed
  from sma_len sma ema_len ema len up mid low rsi_len rsi short short_rsi
  show "length (SMA data period) = length data
   \<and> map (\<lambda>v. v = None) (SMA data period) = map (\<lambda>i. int i < period - 1) [0 ..< length data]
   \<and> length (EMA data period) = length data
   \<and> map (\<lambda>v. v = None) (EMA data period) = map (\<lambda>i. int i < period - 1) [0 ..< length data]
   \<and> length (upper (BollingerBands data period mult)) = length data
   \<and> length (middle (BollingerBands data period mult)) = length data
   \<and> length (lower (BollingerBands data period mult)) = length data
   \<and> map (\<lambda>v. v = None) (upper (BollingerBands data period mult))
       = map (\<lambda>i. int i < period - 1) [0 ..< length data]
   \<and> map (\<lambda>v. v = None) (middle (BollingerBands data period mult))
       = map (\<lambda>i. int i < period - 1) [0 ..< length data]
   \<and> map (\<lambda>v. v = None) (lower (BollingerBands data period mult))
       = map (\<lambda>i. int i < period - 1) [0 ..< length data]
   \<and> length (RSI data period) = length data
   \<and> map (\<lambda>v. v = None) (RSI data period) = map (\<lambda>i. int i < period) [0 ..< length data]
   \<and> (int (length data) \<le> period - 1 \<longrightarrow>
        SMA data period = replicate (length data) None
      \<and> EMA data period = replicate (length data) None
      \<and> upper (BollingerBands data period mult) = replicate (length data) None
      \<and> middle (BollingerBands data period mult) = replicate (length data) None
      \<and> lower (BollingerBands data period mult) = replicate (length data) None)
   \<and> (int (length data) \<le> period \<longrightarrow> RSI data period = replicate (length data) None)"
    by blast
qed

theorem warm_up_is_null_witness:
  "(1::int) \<le> 2
   \<and> length (SMA [1, 2, 4] 2) = 3
   \<and> map (\<lambda>v. v = None) (SMA [1, 2, 4] 2) = [True, False, False]
   \<and> map (\<lambda>v. v = None) (EMA [1, 2, 4] 2) = [True, False, False]
   \<and> map (\<lambda>v. v = None) (upper (BollingerBands [1, 2, 4] 2 2)) = [True, False, False]
   \<and> map (\<lambda>v. v = None) (middle (BollingerBands [1, 2, 4] 2 2)) = [True, False, False]
   \<and> map (\<lambda>v. v = None) (lower (BollingerBands [1, 2, 4] 2 2)) = [True, False, False]
   \<and> length (RSI [1, 2, 4] 2) = 3
   \<and> map (\<lambda>v. v = None) (RSI [1, 2, 4] 2) = [True, True, False]
   \<and> (1::int) \<le> 14 \<and> int (length [1, 2, 4 :: real]) \<le> 14 - 1
   \<and> SMA [1, 2, 4] 14 = [None, None, None]
   \<and> EMA [1, 2, 4] 14 = [None, None, None]
   \<and> upper (BollingerBands [1, 2, 4] 14 2) = [None, None, None]
   \<and> RSI [1, 2, 4] 14 = [None, None, None]"
proof -
  have u: "[0 ..< 3] = [0, 1, 2]"
    by (simp add: upt_conv_Cons)
  have r: "replicate 3 None = [None, None, None :: real option]"
    by (simp add: numeral_3_eq_3)
  from u warm_up_is_null [where period = 2 and data = "[1, 2, 4]" and mult = 2]
  have a: "length (SMA [1, 2, 4] 2) = 3
      \<and> map (\<lambda>v. v = None) (SMA [1, 2, 4] 2) = [True, False, False]
      \<and> map (\<lambda>v. v = None) (EMA [1, 2, 4] 2) = [True, False, False]
      \<and> map (\<lambda>v. v = None) (upper (BollingerBands [1, 2, 4] 2 2)) = [True, False, False]
      \<and> map (\<lambda>v. v = None) (middle (BollingerBands [1, 2, 4] 2 2)) = [True, False, False]
      \<and> map (\<lambda>v. v = None) (lower (BollingerBands [1, 2, 4] 2 2)) = [True, False, False]
      \<and> length (RSI [1, 2, 4] 2) = 3
      \<and> map (\<lambda>v. v = None) (RSI [1, 2, 4] 2) = [True, True, False]"
    by simp
  from r warm_up_is_null [where period = 14 and data = "[1, 2, 4]" and mult = 2]
  have b: "SMA [1, 2, 4] 14 = [None, None, None]
      \<and> EMA [1, 2, 4] 14 = [None, None, None]
      \<and> upper (BollingerBands [1, 2, 4] 14 2) = [None, None, None]
      \<and> RSI [1, 2, 4] 14 = [None, None, None]"
    by simp
  from a b show ?thesis by simp
qed

subsection \<open>RSI at zero average loss\<close>

lemma RSI_loop_append:
  "RSI_loop closes period (xs @ ys) st =
     RSI_loop closes period xs st
     @ RSI_loop closes period ys (fold (\<lambda>j st. snd (RSI_step closes period j st)) xs st)"
  by (induction xs arbitrary: st) simp_all

lemma RSI_loop_nth:
  assumes "i < n"
  shows "RSI_loop closes period [0..<n] st ! i =
           fst (RSI_step closes period i (fold (\<lambda>j st. snd (RSI_step closes period j st)) [0..<i] st))"
proof -
  have "[0..<n] = [0..<i] @ [i..<n]"
    using assms upt_add_eq_append[of 0 i "n - i"] by simp
  moreover have "[i..<n] = i # [Suc i..<n]"
    using assms by (simp add: upt_conv_Cons)
  ultimately have "[0..<n] = [0..<i] @ i # [Suc i..<n]"
    by simp
  then show ?thesis
    by (simp add: RSI_loop_append nth_append RSI_loop_length)
qed

lemma RSI_averages_step:
  "RSI_averages closes period i =
     snd (RSI_step closes period i (fold (\<lambda>j st. snd (RSI_step closes period j st)) [0..<i] (0, 0)))"
  by (simp add: RSI_averages_def)

lemma RSI_step_zero_loss:
  assumes "fst (RSI_step closes period i st) \<noteq> None"
    and "snd (snd (RSI_step closes period i st)) = 0"
  shows "fst (RSI_step closes period i st) = Some (100 - 100 / 101)"
  using assms by (cases st) (auto simp: RSI_step_def Let_def split: if_splits)

text \<open>
  C3, as the code has it. Line 50 sets the relative strength \<open>rs\<close>, not the index, to
  \<open>100\<close> when the average loss is zero, and line 51 pushes \<open>100 - 100 / (1 + rs)\<close>. So
  for every series and every period other than \<open>0\<close>, at every index where \<open>RSI\<close> is
  defined and the smoothed average loss after that index is zero, the value is
  \<open>100 - 100 / 101\<close>, about \<open>99.01\<close>. (With period \<open>0\<close> the averages of the source are
  \<open>NaN\<close>, never zero.)
\<close>

theorem rsi_at_zero_loss:
  assumes "period \<noteq> 0"
    and "i < length closes"
    and "RSI closes period ! i \<noteq> None"
    and "snd (RSI_averages closes period i) = 0"
  shows "RSI closes period ! i = Some (100 - 100 / 101)"
  using assms RSI_step_zero_loss
  by (simp add: RSI_def RSI_loop_nth RSI_averages_step)

theorem rsi_at_zero_loss_witness:
  "(2::int) \<noteq> 0 \<and> 2 < length [1, 2, 3 :: real] \<and> RSI [1, 2, 3] 2 ! 2 \<noteq> None
   \<and> snd (RSI_averages [1, 2, 3] 2 2) = 0
   \<and> RSI [1, 2, 3] 2 ! 2 = Some (100 - 100 / 101)"
proof -
  have h: "(2::int) \<noteq> 0 \<and> 2 < length [1, 2, 3 :: real] \<and> RSI [1, 2, 3] 2 ! 2 \<noteq> None
      \<and> snd (RSI_averages [1, 2, 3] 2 2) = 0"
    by (simp add: RSI_def RSI_averages_def RSI_step_def upt_conv_Cons Let_def)
  with rsi_at_zero_loss [of 2 2 "[1, 2, 3]"] show ?thesis by simp
qed

text \<open>
  The specification has the value \<open>100\<close> there. On the rising series \<open>1, 2, 3\<close> with period
  \<open>2\<close> the entry at index \<open>2\<close> is defined, the average loss is zero, and the value is
  not \<open>100\<close>.
\<close>

theorem rsi_at_zero_loss_counterexample:
  "2 < length [1, 2, 3 :: real] \<and> RSI [1, 2, 3] 2 ! 2 \<noteq> None
   \<and> snd (RSI_averages [1, 2, 3] 2 2) = 0 \<and> RSI [1, 2, 3] 2 ! 2 \<noteq> Some 100"
  by (simp add: RSI_def RSI_averages_def RSI_step_def upt_conv_Cons Let_def)

section \<open>Properties of the decision engine\<close>

lemma sort_key_head_least:
  assumes "sort_key f xs = b # rest"
  shows "b \<in> set xs \<and> (\<forall>y\<in>set xs. f b \<le> f y)"
proof -
  have s: "sorted (map f (b # rest))"
    using sorted_sort_key[of f xs] assms by simp
  have m: "set (b # rest) = set xs"
    using set_sort[of f xs] assms by simp
  from s have "\<forall>y\<in>set rest. f b \<le> f y" by simp
  with m show ?thesis by auto
qed

lemma sort_key_Nil_iff: "sort_key f xs = [] \<longleftrightarrow> xs = []"
  by (metis length_sort list.size(3) length_0_conv)

lemma evaluate_cycle_threshold:
  "(let (a, e') = evaluate_cycle e tick scored day mtick now in
     (\<forall>m. chosen a = Best m \<longrightarrow>
        0.1 < score m \<and> m \<in> set scored \<and> (\<forall>c\<in>set scored. score c \<le> score m))
     \<and> ((\<forall>c\<in>set scored. score c \<le> 0.1) \<longrightarrow> chosen a = HOLD)
     \<and> (chosen a = HOLD \<longrightarrow> ledger e' = ledger e \<and> signals e' = signals e @ [AnalysisEvent a])
     \<and> (chosen a \<noteq> HOLD \<longrightarrow> (\<exists>m. chosen a = Best m \<and> 0.1 < score m)))"
proof (cases "sort_by_score scored")
  case Nil
  then have "scored = []" by (simp add: sort_by_score_def sort_key_Nil_iff)
  with Nil show ?thesis
    by (simp add: evaluate_cycle_def Let_def HOLD_def)
next
  case (Cons b rest)
  then have hd: "b \<in> set scored \<and> (\<forall>y\<in>set scored. score y \<le> score b)"
    using sort_key_head_least[of "\<lambda>m. - score m" scored b rest]
    by (simp add: sort_by_score_def)
  show ?thesis
  proof (cases "score b > 0.1")
    case True
    with hd have "\<not> (\<forall>c\<in>set scored. score c \<le> 0.1)"
      by (metis not_le)
    with True Cons hd show ?thesis
      by (simp add: evaluate_cycle_def Let_def HOLD_def split: prod.splits)
  next
    case False
    with Cons hd show ?thesis
      by (auto simp: evaluate_cycle_def Let_def HOLD_def)
  qed
qed

lemma evaluateRealAI_threshold:
  "(let (d, result, p') = evaluateRealAI_select p cands symbol price day tick now in
     (\<forall>act. daction d = Some act \<longrightarrow>
        (\<exists>b\<in>set cands. raction b = act \<and> 0.5 < rscore b \<and> dscore d = rscore b
           \<and> (\<forall>c\<in>set cands. rscore c \<le> rscore b)))
     \<and> ((\<forall>c\<in>set cands. rscore c \<le> 0.5) \<longrightarrow> d = no_decision)
     \<and> (daction d = None \<longrightarrow> d = no_decision \<and> result = None \<and> p' = p))"
proof (cases "sort_key (\<lambda>c. - rscore c) cands")
  case Nil
  then show ?thesis
    by (simp add: evaluateRealAI_select_def no_decision_def)
next
  case (Cons b rest)
  then have hd: "b \<in> set cands \<and> (\<forall>y\<in>set cands. rscore y \<le> rscore b)"
    using sort_key_head_least[of "\<lambda>c. - rscore c" cands b rest] by simp
  show ?thesis
  proof (cases "rscore b > 0.5")
    case True
    with hd have "\<not> (\<forall>c\<in>set cands. rscore c \<le> 0.5)"
      by (metis not_le)
    with True Cons hd show ?thesis
      by (auto simp: evaluateRealAI_select_def Let_def no_decision_def split: prod.splits)
  next
    case False
    with Cons hd show ?thesis
      by (auto simp: evaluateRealAI_select_def Let_def no_decision_def)
  qed
qed

lemma evaluate_gate:
  "fst (evaluate e tick scored day mtick now) = None \<longrightarrow> snd (evaluate e tick scored day mtick now) = e"
  by (simp add: evaluate_def split: prod.splits)

text \<open>
  C4. In an evaluation cycle of the synthetic engine the chosen move is a candidate only
  if that candidate's score is above \<open>0.1\<close>, and then it is a candidate of the highest
  score; when no candidate is above \<open>0.1\<close> the choice is HOLD; and with HOLD the ledger
  is untouched and the only signal sent is the analysis, so no trade was made. A call of
  \<open>evaluate\<close> that the frequency gate turns away changes nothing. On replayed data the
  same holds with \<open>0.5\<close>: an action is set only from a candidate of the highest score
  whose score is above \<open>0.5\<close>; otherwise the action stays \<open>null\<close> (the panel then shows
  "Holding"), no ledger call is made and the ledger is untouched.
\<close>

theorem conviction_threshold:
  "(let (a, e') = evaluate_cycle e tick scored day mtick now in
     (\<forall>m. chosen a = Best m \<longrightarrow>
        0.1 < score m \<and> m \<in> set scored \<and> (\<forall>c\<in>set scored. score c \<le> score m))
     \<and> ((\<forall>c\<in>set scored. score c \<le> 0.1) \<longrightarrow> chosen a = HOLD)
     \<and> (chosen a = HOLD \<longrightarrow> ledger e' = ledger e \<and> signals e' = signals e @ [AnalysisEvent a])
     \<and> (chosen a \<noteq> HOLD \<longrightarrow> (\<exists>m. chosen a = Best m \<and> 0.1 < score m)))
   \<and> (fst (evaluate e tick scored day mtick now) = None
        \<longrightarrow> snd (evaluate e tick scored day mtick now) = e)
   \<and> (let (d, result, p') = evaluateRealAI_select p cands symbol price rday rtick rnow in
     (\<forall>act. daction d = Some act \<longrightarrow>
        (\<exists>b\<in>set cands. raction b = act \<and> 0.5 < rscore b \<and> dscore d = rscore b
           \<and> (\<forall>c\<in>set cands. rscore c \<le> rscore b)))
     \<and> ((\<forall>c\<in>set cands. rscore c \<le> 0.5) \<longrightarrow> d = no_decision)
     \<and> (daction d = None \<longrightarrow> d = no_decision \<and> result = None \<and> p' = p))"
  using evaluate_cycle_threshold[of e tick scored day mtick now]
    evaluate_gate[of e tick scored day mtick now]
    evaluateRealAI_threshold[of p cands symbol price rday rtick rnow]
  by blast

theorem conviction_threshold_witness:
  "chosen (fst (evaluate_cycle (AIEngine (Portfolio ''AI Engine'' 10000)) 8
             [weak_move, strong_move] 0 8 0)) = Best strong_move
   \<and> 0.1 < score strong_move
   \<and> score weak_move \<le> score strong_move
   \<and> score weak_move \<le> 0.1
   \<and> chosen (fst (evaluate_cycle (AIEngine (Portfolio ''AI Engine'' 10000)) 8
             [weak_move] 0 8 0)) = HOLD
   \<and> ledger (snd (evaluate_cycle (AIEngine (Portfolio ''AI Engine'' 10000)) 8
             [weak_move] 0 8 0)) = Portfolio ''AI Engine'' 10000
   \<and> fst (evaluate (AIEngine (Portfolio ''AI Engine'' 10000)) 3 [weak_move, strong_move] 0 3 0) = None
   \<and> snd (evaluate (AIEngine (Portfolio ''AI Engine'' 10000)) 3 [weak_move, strong_move] 0 3 0)
       = AIEngine (Portfolio ''AI Engine'' 10000)
   \<and> daction (fst (evaluateRealAI_select (Portfolio ''AI Engine'' 10000)
             [weak_candidate, strong_candidate] ''AAPL'' 150 4 5 0)) = Some ''BUY''
   \<and> dscore (fst (evaluateRealAI_select (Portfolio ''AI Engine'' 10000)
             [weak_candidate, strong_candidate] ''AAPL'' 150 4 5 0)) > 0.5
   \<and> rscore weak_candidate \<le> 0.5
   \<and> evaluateRealAI_select (Portfolio ''AI Engine'' 10000) [weak_candidate] ''AAPL'' 150 4 5 0
       = (no_decision, None, Portfolio ''AI Engine'' 10000)"
proof -
  have a: "chosen (fst (evaluate_cycle (AIEngine (Portfolio ''AI Engine'' 10000)) 8
             [weak_move, strong_move] 0 8 0)) = Best strong_move"
    by (simp add: evaluate_cycle_def sort_by_score_def weak_move_def strong_move_def Let_def
        split: prod.splits)
  have d: "daction (fst (evaluateRealAI_select (Portfolio ''AI Engine'' 10000)
             [weak_candidate, strong_candidate] ''AAPL'' 150 4 5 0)) = Some ''BUY''"
    by (simp add: evaluateRealAI_select_def weak_candidate_def strong_candidate_def Let_def
        split: prod.splits)
  from a d conviction_threshold [where e = "AIEngine (Portfolio ''AI Engine'' 10000)" and tick = 8
      and scored = "[weak_move, strong_move]" and day = 0 and mtick = 8 and now = 0
      and p = "Portfolio ''AI Engine'' 10000" and cands = "[weak_candidate, strong_candidate]"
      and symbol = "''AAPL''" and price = 150 and rday = 4 and rtick = 5 and rnow = 0]
  have above: "0.1 < score strong_move \<and> score weak_move \<le> score strong_move
     \<and> dscore (fst (evaluateRealAI_select (Portfolio ''AI Engine'' 10000)
             [weak_candidate, strong_candidate] ''AAPL'' 150 4 5 0)) > 0.5"
    by (auto split: prod.splits)
  have b: "\<forall>c\<in>set [weak_move]. score c \<le> 0.1"
    by (simp add: weak_move_def)
  have c: "fst (evaluate (AIEngine (Portfolio ''AI Engine'' 10000)) 3 [weak_move, strong_move] 0 3 0) = None"
    by (simp add: evaluate_def AIEngine_def)
  have e: "\<forall>c\<in>set [weak_candidate]. rscore c \<le> 0.5"
    by (simp add: weak_candidate_def)
  from b conviction_threshold [where e = "AIEngine (Portfolio ''AI Engine'' 10000)" and tick = 8
      and scored = "[weak_move]" and day = 0 and mtick = 8 and now = 0
      and p = "Portfolio ''AI Engine'' 10000" and cands = "[weak_candidate]"
      and symbol = "''AAPL''" and price = 150 and rday = 4 and rtick = 5 and rnow = 0]
  have f: "chosen (fst (evaluate_cycle (AIEngine (Portfolio ''AI Engine'' 10000)) 8
             [weak_move] 0 8 0)) = HOLD
     \<and> ledger (snd (evaluate_cycle (AIEngine (Portfolio ''AI Engine'' 10000)) 8
             [weak_move] 0 8 0)) = Portfolio ''AI Engine'' 10000"
    by (simp add: AIEngine_def split: prod.splits)
  from e conviction_threshold [where e = "AIEngine (Portfolio ''AI Engine'' 10000)" and tick = 3
      and scored = "[weak_move, strong_move]" and day = 0 and mtick = 3 and now = 0
      and p = "Portfolio ''AI Engine'' 10000" and cands = "[weak_candidate]"
      and symbol = "''AAPL''" and price = 150 and rday = 4 and rtick = 5 and rnow = 0]
  have g: "snd (evaluate (AIEngine (Portfolio ''AI Engine'' 10000)) 3 [weak_move, strong_move] 0 3 0)
       = AIEngine (Portfolio ''AI Engine'' 10000)
     \<and> evaluateRealAI_select (Portfolio ''AI Engine'' 10000) [weak_candidate] ''AAPL'' 150 4 5 0
       = (no_decision, None, Portfolio ''AI Engine'' 10000)"
    using c by (auto split: prod.splits)
  from a above b c d e f g show ?thesis by simp
qed

section \<open>Properties of the replay driver\<close>

lemma loadSymbol_end_empty:
  assumes "empty_series resp"
  shows "\<exists>msg. loadSymbol_end s resp
           = (Inl msg, r_emit (s\<lparr>r_loading := False, r_error := Some msg\<rparr>) (Error msg))"
  using assms
  by (cases resp) (auto simp: loadSymbol_end_def load_failed_def split: option.splits)

lemma loadSymbol_begin_fields:
  "r_candles (loadSymbol_begin s symbol rng) = r_candles s
   \<and> r_replayIndex (loadSymbol_begin s symbol rng) = r_replayIndex s
   \<and> r_replayCandles (loadSymbol_begin s symbol rng) = r_replayCandles s
   \<and> r_day (loadSymbol_begin s symbol rng) = r_day s
   \<and> r_tick (loadSymbol_begin s symbol rng) = r_tick s
   \<and> r_paused (loadSymbol_begin s symbol rng)
   \<and> r_intervalId (loadSymbol_begin s symbol rng) = None
   \<and> r_emitted (loadSymbol_begin s symbol rng) = r_emitted s @ [Pause, Loading (toUpperCase symbol)]"
  by (simp add: loadSymbol_begin_def pause_def r_emit_def Let_def)

lemma loadSymbol_empty:
  assumes "empty_series resp"
  shows "\<exists>msg. fst (loadSymbol s symbol rng resp) = Inl msg
           \<and> r_error (snd (loadSymbol s symbol rng resp)) = Some msg
           \<and> r_emitted (snd (loadSymbol s symbol rng resp))
               = r_emitted s @ [Pause, Loading (toUpperCase symbol), Error msg]
           \<and> r_candles (snd (loadSymbol s symbol rng resp)) = r_candles s
           \<and> r_replayIndex (snd (loadSymbol s symbol rng resp)) = r_replayIndex s
           \<and> r_replayCandles (snd (loadSymbol s symbol rng resp)) = r_replayCandles s
           \<and> r_day (snd (loadSymbol s symbol rng resp)) = r_day s
           \<and> r_tick (snd (loadSymbol s symbol rng resp)) = r_tick s
           \<and> r_paused (snd (loadSymbol s symbol rng resp))
           \<and> r_intervalId (snd (loadSymbol s symbol rng resp)) = None
           \<and> \<not> r_loading (snd (loadSymbol s symbol rng resp))"
proof -
  from loadSymbol_end_empty[OF assms, of "loadSymbol_begin s symbol rng"]
  obtain msg where "loadSymbol_end (loadSymbol_begin s symbol rng) resp
      = (Inl msg, r_emit ((loadSymbol_begin s symbol rng)\<lparr>r_loading := False, r_error := Some msg\<rparr>)
                    (Error msg))"
    by blast
  then show ?thesis
    by (simp add: loadSymbol_def r_emit_def loadSymbol_begin_fields)
qed

lemma step_empty:
  assumes "r_candles s = []" "call_without_data c"
  shows "r_candles (replay_step s c) = []
         \<and> filter is_tick (r_emitted (replay_step s c)) = filter is_tick (r_emitted s)"
proof (cases c)
  case (CallLoad symbol rng resp)
  with assms(2) have "empty_series resp" by simp
  from loadSymbol_empty[OF this, of s symbol rng] CallLoad assms(1) show ?thesis
    by auto
next
  case TimerFires
  with assms(1) show ?thesis
    by (auto simp: timer_fires_def r_emit_def split: option.splits)
qed (use assms(1) in \<open>simp_all add: play_def pause_def reset_def setSpeed_def r_emit_def Let_def\<close>)

lemma run_empty:
  assumes "r_candles s = []" "list_all call_without_data calls"
  shows "r_candles (fold (\<lambda>c s. replay_step s c) calls s) = []
         \<and> filter is_tick (r_emitted (fold (\<lambda>c s. replay_step s c) calls s))
             = filter is_tick (r_emitted s)"
  using assms
proof (induction calls arbitrary: s)
  case Nil
  then show ?case by simp
next
  case (Cons c calls)
  from Cons.prems have c: "call_without_data c" and cs: "list_all call_without_data calls"
    by simp_all
  from step_empty[OF Cons.prems(1) c] Cons.IH[of "replay_step s c", OF _ cs]
  show ?case by simp
qed

text \<open>
  C8. When the response to \<open>loadSymbol\<close> carries no candle (an empty or missing series,
  or a failed fetch), the driver resumes, from whatever state it is in by then, into the
  error state: the promise is rejected with a message, \<open>error\<close> is that message,
  \<open>loading\<close> is off, the \<open>error\<close> signal is sent, and nothing else of the state changes.
  Over the whole call the signals sent are \<open>pause\<close>, \<open>loading\<close> and \<open>error\<close>, so no
  tick, and the series, the replay position, the revealed candles, the day and the tick
  count are what they were. \<open>play\<close> on a driver with an empty series returns the state
  as it is: nothing is scheduled and no signal is sent. And a driver with an empty
  series sends no tick under any sequence of play, pause, reset, speed changes, timer
  callbacks and loads that bring no candle.
\<close>

theorem empty_series_is_an_error:
  "empty_series resp \<longrightarrow>
     (\<exists>msg. loadSymbol_end s resp
         = (Inl msg, r_emit (s\<lparr>r_loading := False, r_error := Some msg\<rparr>) (Error msg)))
     \<and> (\<exists>msg. fst (loadSymbol s symbol rng resp) = Inl msg
           \<and> r_error (snd (loadSymbol s symbol rng resp)) = Some msg
           \<and> r_emitted (snd (loadSymbol s symbol rng resp))
               = r_emitted s @ [Pause, Loading (toUpperCase symbol), Error msg])
     \<and> filter is_tick (r_emitted (snd (loadSymbol s symbol rng resp)))
         = filter is_tick (r_emitted s)
     \<and> r_candles (snd (loadSymbol s symbol rng resp)) = r_candles s
     \<and> r_replayIndex (snd (loadSymbol s symbol rng resp)) = r_replayIndex s
     \<and> r_replayCandles (snd (loadSymbol s symbol rng resp)) = r_replayCandles s
     \<and> r_day (snd (loadSymbol s symbol rng resp)) = r_day s
     \<and> r_tick (snd (loadSymbol s symbol rng resp)) = r_tick s
     \<and> r_intervalId (snd (loadSymbol s symbol rng resp)) = None
     \<and> (r_candles s = [] \<longrightarrow> play s = s)
     \<and> (r_candles s = [] \<and> list_all call_without_data calls \<longrightarrow>
          filter is_tick (r_emitted (fold (\<lambda>c s. replay_step s c) calls s))
            = filter is_tick (r_emitted s))"
proof
  assume e: "empty_series resp"
  from loadSymbol_empty[OF e, of s symbol rng] obtain msg where
    m: "fst (loadSymbol s symbol rng resp) = Inl msg"
      "r_error (snd (loadSymbol s symbol rng resp)) = Some msg"
      "r_emitted (snd (loadSymbol s symbol rng resp))
               = r_emitted s @ [Pause, Loading (toUpperCase symbol), Error msg]"
    and f: "r_candles (snd (loadSymbol s symbol rng resp)) = r_candles s"
      "r_replayIndex (snd (loadSymbol s symbol rng resp)) = r_replayIndex s"
      "r_replayCandles (snd (loadSymbol s symbol rng resp)) = r_replayCandles s"
      "r_day (snd (loadSymbol s symbol rng resp)) = r_day s"
      "r_tick (snd (loadSymbol s symbol rng resp)) = r_tick s"
      "r_intervalId (snd (loadSymbol s symbol rng resp)) = None"
    by blast
  from m(3) have t: "filter is_tick (r_emitted (snd (loadSymbol s symbol rng resp)))
         = filter is_tick (r_emitted s)"
    by simp
  have p: "r_candles s = [] \<longrightarrow> play s = s"
    by (simp add: play_def)
  have r: "r_candles s = [] \<and> list_all call_without_data calls \<longrightarrow>
          filter is_tick (r_emitted (fold (\<lambda>c s. replay_step s c) calls s))
            = filter is_tick (r_emitted s)"
    using run_empty[of s calls] by blast
  from loadSymbol_end_empty[OF e, of s] m f t p r
  show "(\<exists>msg. loadSymbol_end s resp
         = (Inl msg, r_emit (s\<lparr>r_loading := False, r_error := Some msg\<rparr>) (Error msg)))
     \<and> (\<exists>msg. fst (loadSymbol s symbol rng resp) = Inl msg
           \<and> r_error (snd (loadSymbol s symbol rng resp)) = Some msg
           \<and> r_emitted (snd (loadSymbol s symbol rng resp))
               = r_emitted s @ [Pause, Loading (toUpperCase symbol), Error msg])
     \<and> filter is_tick (r_emitted (snd (loadSymbol s symbol rng resp)))
         = filter is_tick (r_emitted s)
     \<and> r_candles (snd (loadSymbol s symbol rng resp)) = r_candles s
     \<and> r_replayIndex (snd (loadSymbol s symbol rng resp)) = r_replayIndex s
     \<and> r_replayCandles (snd (loadSymbol s symbol rng resp)) = r_replayCandles s
     \<and> r_day (snd (loadSymbol s symbol rng resp)) = r_day s
     \<and> r_tick (snd (loadSymbol s symbol rng resp)) = r_tick s
     \<and> r_intervalId (snd (loadSymbol s symbol rng resp)) = None
     \<and> (r_candles s = [] \<longrightarrow> play s = s)
     \<and> (r_candles s = [] \<and> list_all call_without_data calls \<longrightarrow>
          filter is_tick (r_emitted (fold (\<lambda>c s. replay_step s c) calls s))
            = filter is_tick (r_emitted s))"
    by blast
qed

theorem empty_series_is_an_error_witness:
  "empty_series empty_body
   \<and> fst (loadSymbol RealMarketEngine ''msft'' ''1y'' empty_body)
       = Inl ''No historical data available''
   \<and> r_error (snd (loadSymbol RealMarketEngine ''msft'' ''1y'' empty_body))
       = Some ''No historical data available''
   \<and> r_emitted (snd (loadSymbol RealMarketEngine ''msft'' ''1y'' empty_body))
       = [Pause, Loading ''MSFT'', Error ''No historical data available'']
   \<and> r_replayIndex (snd (loadSymbol RealMarketEngine ''msft'' ''1y'' empty_body)) = 0
   \<and> r_replayCandles (snd (loadSymbol RealMarketEngine ''msft'' ''1y'' empty_body)) = []
   \<and> r_candles RealMarketEngine = []
   \<and> play RealMarketEngine = RealMarketEngine
   \<and> list_all call_without_data [CallLoad ''msft'' ''1y'' empty_body, CallPlay, TimerFires, CallReset]
   \<and> filter is_tick (r_emitted (fold (\<lambda>c s. replay_step s c)
        [CallLoad ''msft'' ''1y'' empty_body, CallPlay, TimerFires, CallReset] RealMarketEngine)) = []"
proof -
  have h: "empty_series empty_body"
    by (simp add: empty_body_def)
  have c: "r_candles RealMarketEngine = []
      \<and> list_all call_without_data [CallLoad ''msft'' ''1y'' empty_body, CallPlay, TimerFires, CallReset]"
    by (simp add: RealMarketEngine_def empty_body_def)
  have u: "toUpperCase ''msft'' = ''MSFT''"
    by code_simp
  have v: "fst (loadSymbol RealMarketEngine ''msft'' ''1y'' empty_body)
       = Inl ''No historical data available''"
    by (simp add: loadSymbol_def loadSymbol_end_def load_failed_def empty_body_def)
  from h c u v empty_series_is_an_error [where resp = empty_body and s = RealMarketEngine
      and symbol = "''msft''" and rng = "''1y''"
      and calls = "[CallLoad ''msft'' ''1y'' empty_body, CallPlay, TimerFires, CallReset]"]
  show ?thesis
    by (auto simp: RealMarketEngine_def)
qed

section \<open>Properties of the simulator's timer\<close>

text \<open>
  C9, as the code has it. \<open>_schedule\<close> passes \<open>Math.max(10, baseInterval / speed)\<close> to
  \<open>setTimeout\<close>. So for positive speeds: \<open>play\<close> on a paused simulator, \<open>setSpeed\<close> on a
  playing one (which stays playing and keeps its tick and day counts) and every timer
  callback of a playing one leave one pending timer whose delay is the larger of \<open>10\<close>
  and \<open>baseInterval / speed\<close>; the delay is \<open>baseInterval / speed\<close> whenever that
  quotient is at least \<open>10\<close>.
\<close>

theorem tick_delay:
  "0 < m_speed m \<and> 0 < v \<longrightarrow>
   (m_paused m \<longrightarrow> m_intervalId (m_play m) = Some (max 10 (m_baseInterval m / m_speed m)))
   \<and> (\<not> m_paused m \<longrightarrow>
        m_intervalId (m_setSpeed m v) = Some (max 10 (m_baseInterval m / v))
      \<and> \<not> m_paused (m_setSpeed m v) \<and> m_tick (m_setSpeed m v) = m_tick m
      \<and> m_day (m_setSpeed m v) = m_day m)
   \<and> (\<not> m_paused m \<and> m_intervalId m \<noteq> None \<longrightarrow>
        m_intervalId (m_timer_fires m) = Some (max 10 (m_baseInterval m / m_speed m)))
   \<and> (10 \<le> m_baseInterval m / v \<longrightarrow>
        max 10 (m_baseInterval m / v) = m_baseInterval m / v)"
  by (auto simp: m_play_def m_setSpeed_def m_schedule_def m_emit_def m_pause_def
      m_timer_fires_def m_tick_step_def Let_def)

theorem tick_delay_witness:
  "m_paused MarketEngine \<and> 0 < m_speed MarketEngine
   \<and> m_intervalId (m_play MarketEngine) = Some 385
   \<and> \<not> m_paused (m_play MarketEngine) \<and> (0::real) < 5
   \<and> m_intervalId (m_setSpeed (m_play MarketEngine) 5) = Some 77
   \<and> m_intervalId (m_timer_fires (m_play MarketEngine)) = Some 385
   \<and> 10 \<le> m_baseInterval (m_play MarketEngine) / 5"
proof -
  have p: "m_paused MarketEngine \<and> 0 < m_speed MarketEngine
      \<and> m_baseInterval MarketEngine / m_speed MarketEngine = 385"
    by (simp add: MarketEngine_def)
  with tick_delay [where m = MarketEngine and v = 5]
  have first: "m_intervalId (m_play MarketEngine) = Some 385"
    by simp
  have h: "0 < m_speed (m_play MarketEngine) \<and> (0::real) < 5
      \<and> \<not> m_paused (m_play MarketEngine)
      \<and> m_speed (m_play MarketEngine) = 1
      \<and> m_baseInterval (m_play MarketEngine) = 385"
    by (simp add: MarketEngine_def m_play_def m_schedule_def m_emit_def)
  with first tick_delay [where m = "m_play MarketEngine" and v = 5]
  have rest: "m_intervalId (m_setSpeed (m_play MarketEngine) 5) = Some 77
      \<and> m_intervalId (m_timer_fires (m_play MarketEngine)) = Some 385
      \<and> 10 \<le> m_baseInterval (m_play MarketEngine) / 5"
    by simp
  from p first h rest show ?thesis by simp
qed

text \<open>
  The specification has the delay equal to \<open>baseInterval / speed\<close> for every positive speed. At
  the speed \<open>50\<close> of the fastest setting the quotient is \<open>385 / 50 = 7.7\<close> and the
  delay scheduled is \<open>10\<close>.
\<close>

theorem tick_delay_counterexample:
  "(0::real) < 50
   \<and> \<not> m_paused (m_play (m_setSpeed MarketEngine 50))
   \<and> m_speed (m_play (m_setSpeed MarketEngine 50)) = 50
   \<and> m_intervalId (m_play (m_setSpeed MarketEngine 50)) = Some 10
   \<and> m_baseInterval (m_play (m_setSpeed MarketEngine 50))
        / m_speed (m_play (m_setSpeed MarketEngine 50)) \<noteq> 10"
  by (simp add: MarketEngine_def m_play_def m_setSpeed_def m_schedule_def m_emit_def)

end
